theory Spec2Isabelle
  imports Complex_Main "HOL-Library.AList"
begin

section \<open>Values and failures\<close>

text \<open>
  Python numbers (the payoffs, probabilities and learning parameters, \<open>int\<close> or \<open>float\<close>
  in the source) are real numbers here. Where the source only stores, adds up or compares
  them, the arithmetic is exact and rounding is not modelled. Where a branch is taken on
  the result of floating-point arithmetic (the expected payoffs of the frequency-based
  responder), each operation is rounded as a double is, by \<open>fl\<close> below. Strings are
  \<open>string\<close>. A raised exception is the \<open>Inl\<close> branch of a sum.
\<close>

datatype error =
    AssertionError
  | KeyError
  | ValueError string
  | TypeError
  | ZeroDivisionError

text \<open>A Python value that is a string, a number or \<open>None\<close>.\<close>

datatype pyval = Str string | Num real | PyNone

subsection \<open>Rounding to a double\<close>

text \<open>
  A Python \<open>float\<close> is an IEEE 754 double: an integer of magnitude below \<open>2^53\<close> times a
  power of two whose exponent is at least \<open>-1074\<close>. The result of an arithmetic operation
  is the exact result rounded to the nearest double, a tie going to the one whose integer
  is even. \<open>ulp_exp x\<close> is the exponent of the spacing of the doubles around \<open>x\<close>
  (53 significant bits, or the spacing of the subnormal numbers), and \<open>fl x\<close> is \<open>x\<close>
  rounded. Overflow is not modelled: the values rounded below are probabilities and
  expected payoffs, of magnitude at most 6.
\<close>

definition ulp_exp :: "real \<Rightarrow> int" where
  "ulp_exp x = max (\<lfloor>log 2 \<bar>x\<bar>\<rfloor> - 52) (- 1074)"

definition round_half_even :: "real \<Rightarrow> int" where
  "round_half_even y =
     (let f = \<lfloor>y\<rfloor>
      in if y - of_int f < 1 / 2 then f
         else if y - of_int f > 1 / 2 then f + 1
         else if even f then f else f + 1)"

definition fl :: "real \<Rightarrow> real" where
  "fl x =
     (if x = 0 then 0
      else of_int (round_half_even (x / 2 powr of_int (ulp_exp x))) * 2 powr of_int (ulp_exp x))"

section \<open>Games (game/base_game.py)\<close>

subsection \<open>Prisoner's Dilemma\<close>

record matrix_game =
  PAYOFF_MATRIX :: "((string \<times> string) \<times> (real \<times> real)) list"

text \<open>\<open>__init__(self, R=3, S=0, T=5, P=1)\<close>: the chained comparison
  \<open>assert T > R > P > S\<close>, then the instance's matrix.\<close>

definition PrisonersDilemma_init :: "real \<Rightarrow> real \<Rightarrow> real \<Rightarrow> real \<Rightarrow> error + matrix_game" where
  "PrisonersDilemma_init R S T P =
     (if T > R \<and> R > P \<and> P > S
      then Inr \<lparr>PAYOFF_MATRIX =
                 [((''C'', ''C''), (R, R)),
                  ((''C'', ''D''), (S, T)),
                  ((''D'', ''C''), (T, S)),
                  ((''D'', ''D''), (P, P))]\<rparr>
      else Inl AssertionError)"

text \<open>\<open>play\<close> is a dictionary lookup; a pair that is not a key raises \<open>KeyError\<close>.
  Both matrix games share it.\<close>

definition play :: "matrix_game \<Rightarrow> string \<Rightarrow> string \<Rightarrow> error + (real \<times> real)" where
  "play g action1 action2 =
     (case map_of (PAYOFF_MATRIX g) (action1, action2) of
        None \<Rightarrow> Inl KeyError
      | Some p \<Rightarrow> Inr p)"

definition PrisonersDilemma_get_actions :: "matrix_game \<Rightarrow> string list" where
  "PrisonersDilemma_get_actions g = [''C'', ''D'']"

subsection \<open>Coordination game\<close>

text \<open>\<open>__init__(self, high_payoff=4, low_payoff=2, mismatch=0)\<close>: no check.\<close>

definition CoordinationGame_init :: "real \<Rightarrow> real \<Rightarrow> real \<Rightarrow> matrix_game" where
  "CoordinationGame_init high_payoff low_payoff mismatch =
     \<lparr>PAYOFF_MATRIX =
        [((''A'', ''A''), (high_payoff, high_payoff)),
         ((''A'', ''B''), (mismatch, mismatch)),
         ((''B'', ''A''), (mismatch, mismatch)),
         ((''B'', ''B''), (low_payoff, low_payoff))]\<rparr>"

definition CoordinationGame_get_actions :: "matrix_game \<Rightarrow> string list" where
  "CoordinationGame_get_actions g = [''A'', ''B'']"

subsection \<open>Public goods game\<close>

record public_goods_game =
  n :: int
  r :: real
  endowment :: real

definition PublicGoodsGame_init :: "int \<Rightarrow> real \<Rightarrow> real \<Rightarrow> public_goods_game" where
  "PublicGoodsGame_init n_players multiplier endowment' =
     \<lparr>n = n_players, r = multiplier, endowment = endowment'\<rparr>"

text \<open>
  \<open>play\<close>: the assertion on the length, then \<open>self.r * total_contribution / self.n\<close>,
  which raises \<open>ZeroDivisionError\<close> when \<open>self.n\<close> is zero, then one payoff for each
  contribution.
\<close>

definition PublicGoodsGame_play :: "public_goods_game \<Rightarrow> real list \<Rightarrow> error + real list" where
  "PublicGoodsGame_play g contributions =
     (if int (length contributions) \<noteq> n g then Inl AssertionError
      else
        let total_contribution = sum_list contributions in
        if n g = 0 then Inl ZeroDivisionError
        else
          let public_benefit = r g * total_contribution / real_of_int (n g) in
          Inr (map (\<lambda>c. (endowment g - c) + public_benefit) contributions))"

definition PublicGoodsGame_get_actions :: "public_goods_game \<Rightarrow> real list" where
  "PublicGoodsGame_get_actions g = [0, endowment g]"

text \<open>The three games, and the alphabet each one reports, as Python values.\<close>

datatype game =
    PD matrix_game
  | COORD matrix_game
  | PG public_goods_game

fun get_actions :: "game \<Rightarrow> pyval list" where
  "get_actions (PD g) = map Str (PrisonersDilemma_get_actions g)"
| "get_actions (COORD g) = map Str (CoordinationGame_get_actions g)"
| "get_actions (PG g) = map Num (PublicGoodsGame_get_actions g)"

section \<open>Agents\<close>

subsection \<open>The base class (agent/base_agent.py)\<close>

record memory_record =
  my_action :: string
  opponent_action :: string
  payoff :: real
  round :: int

text \<open>The name of a strategy is a literal, but for the random agent, whose name is
  formatted from its cooperation probability (\<open>f"Random({coop_probability})"\<close>).\<close>

datatype strategy_name = Name string | RandomName real

text \<open>\<open>memory\<close> is a \<open>deque(maxlen=memory_length)\<close>: the list of its records, oldest
  first, together with its bound \<open>maxlen\<close>.\<close>

record base_agent =
  agent_id :: int
  maxlen :: nat
  memory :: "memory_record list"
  total_payoff :: real
  round_count :: int
  strategy_name :: strategy_name
  ability_level :: string

definition BaseAgent_init :: "int \<Rightarrow> nat \<Rightarrow> base_agent" where
  "BaseAgent_init agent_id' memory_length =
     \<lparr>agent_id = agent_id', maxlen = memory_length, memory = [], total_payoff = 0,
      round_count = 0, strategy_name = Name ''BaseAgent'', ability_level = ''Unknown''\<rparr>"

text \<open>\<open>deque.append\<close> on a bounded deque: the item goes to the right end, and when the
  deque is then longer than \<open>maxlen\<close> its leftmost item is dropped.\<close>

definition deque_append :: "nat \<Rightarrow> 'a list \<Rightarrow> 'a \<Rightarrow> 'a list" where
  "deque_append m xs x = (let ys = xs @ [x] in if length ys > m then tl ys else ys)"

definition BaseAgent_update ::
  "'a base_agent_scheme \<Rightarrow> string \<Rightarrow> string \<Rightarrow> real \<Rightarrow> 'a base_agent_scheme" where
  "BaseAgent_update self my_action' opponent_action' payoff' =
     self\<lparr>memory := deque_append (maxlen self) (memory self)
                \<lparr>my_action = my_action', opponent_action = opponent_action',
                 payoff = payoff', round = round_count self\<rparr>,
          total_payoff := total_payoff self + payoff',
          round_count := round_count self + 1\<rparr>"

definition BaseAgent_reset :: "'a base_agent_scheme \<Rightarrow> 'a base_agent_scheme" where
  "BaseAgent_reset self = self\<lparr>memory := [], total_payoff := 0, round_count := 0\<rparr>"

definition get_last_opponent_action :: "'a base_agent_scheme \<Rightarrow> string option" where
  "get_last_opponent_action self =
     (if length (memory self) > 0 then Some (opponent_action (last (memory self))) else None)"

subsection \<open>Static agents (agent/simple_agent.py)\<close>

definition AlwaysCooperate_init :: "int \<Rightarrow> base_agent" where
  "AlwaysCooperate_init agent_id' =
     (BaseAgent_init agent_id' 0)\<lparr>strategy_name := Name ''AllC'', ability_level := ''Low''\<rparr>"

definition AlwaysCooperate_choose_action :: "base_agent \<Rightarrow> string \<Rightarrow> string" where
  "AlwaysCooperate_choose_action self game_type =
     (if game_type = ''PD'' then ''C''
      else if game_type = ''COORD'' then ''A''
      else ''C'')"

definition AlwaysDefect_init :: "int \<Rightarrow> base_agent" where
  "AlwaysDefect_init agent_id' =
     (BaseAgent_init agent_id' 0)\<lparr>strategy_name := Name ''AllD'', ability_level := ''Low''\<rparr>"

definition AlwaysDefect_choose_action :: "base_agent \<Rightarrow> string \<Rightarrow> string" where
  "AlwaysDefect_choose_action self game_type =
     (if game_type = ''PD'' then ''D''
      else if game_type = ''COORD'' then ''B''
      else ''D'')"

record random_agent = base_agent +
  coop_prob :: real

definition RandomAgent_init :: "int \<Rightarrow> real \<Rightarrow> random_agent" where
  "RandomAgent_init agent_id' coop_probability =
     base_agent.extend
       ((BaseAgent_init agent_id' 0)
          \<lparr>strategy_name := RandomName coop_probability, ability_level := ''Low''\<rparr>)
       (random_agent.fields coop_probability)"

text \<open>The random source is an input: \<open>u\<close> is the number \<open>random.random()\<close> returns.\<close>

definition RandomAgent_choose_action :: "random_agent \<Rightarrow> string \<Rightarrow> real \<Rightarrow> string" where
  "RandomAgent_choose_action self game_type u =
     (if u < coop_prob self
      then (if game_type = ''PD'' then ''C'' else ''A'')
      else (if game_type = ''PD'' then ''D'' else ''B''))"

subsection \<open>Reactive agents (agent/med_agent.py)\<close>

definition TitForTat_init :: "int \<Rightarrow> base_agent" where
  "TitForTat_init agent_id' =
     (BaseAgent_init agent_id' 1)\<lparr>strategy_name := Name ''TFT'', ability_level := ''Medium''\<rparr>"

definition TitForTat_choose_action :: "base_agent \<Rightarrow> string \<Rightarrow> string" where
  "TitForTat_choose_action self game_type =
     (case get_last_opponent_action self of
        None \<Rightarrow> (if game_type = ''PD'' then ''C'' else ''A'')
      | Some last_opponent \<Rightarrow> last_opponent)"

record pavlov = base_agent +
  threshold :: real
  last_action :: "string option"

definition Pavlov_init :: "int \<Rightarrow> real \<Rightarrow> pavlov" where
  "Pavlov_init agent_id' threshold' =
     base_agent.extend
       ((BaseAgent_init agent_id' 1)
          \<lparr>strategy_name := Name ''Pavlov'', ability_level := ''Medium''\<rparr>)
       (pavlov.fields threshold' None)"

text \<open>\<open>choose_action\<close> assigns \<open>self.last_action\<close> in two of its branches, so it returns
  the agent as well. The value returned is \<open>self.last_action\<close>, which is \<open>None\<close> until it
  is first assigned.\<close>

definition Pavlov_choose_action :: "pavlov \<Rightarrow> string \<Rightarrow> string option \<times> pavlov" where
  "Pavlov_choose_action self game_type =
     (if length (memory self) = 0 then
        (let self1 = self\<lparr>last_action := Some (if game_type = ''PD'' then ''C'' else ''A'')\<rparr>
         in (last_action self1, self1))
      else
        let last_payoff = payoff (last (memory self)) in
        if last_payoff \<ge> threshold self then (last_action self, self)
        else
          let self1 =
            (if game_type = ''PD''
             then self\<lparr>last_action := Some (if last_action self = Some ''C'' then ''D'' else ''C'')\<rparr>
             else self\<lparr>last_action := Some (if last_action self = Some ''A'' then ''B'' else ''A'')\<rparr>)
          in (last_action self1, self1))"

definition Pavlov_update :: "pavlov \<Rightarrow> string \<Rightarrow> string \<Rightarrow> real \<Rightarrow> pavlov" where
  "Pavlov_update self my_action' opponent_action' payoff' =
     (BaseAgent_update self my_action' opponent_action' payoff')\<lparr>last_action := Some my_action'\<rparr>"

record grim_trigger = base_agent +
  triggered :: bool

definition GrimTrigger_init :: "int \<Rightarrow> grim_trigger" where
  "GrimTrigger_init agent_id' =
     base_agent.extend
       ((BaseAgent_init agent_id' 100)
          \<lparr>strategy_name := Name ''Grim'', ability_level := ''Medium''\<rparr>)
       (grim_trigger.fields False)"

definition GrimTrigger_choose_action :: "grim_trigger \<Rightarrow> string \<Rightarrow> string" where
  "GrimTrigger_choose_action self game_type =
     (if triggered self then (if game_type = ''PD'' then ''D'' else ''B'')
      else (if game_type = ''PD'' then ''C'' else ''A''))"

definition GrimTrigger_update :: "grim_trigger \<Rightarrow> string \<Rightarrow> string \<Rightarrow> real \<Rightarrow> grim_trigger" where
  "GrimTrigger_update self my_action' opponent_action' payoff' =
     (let self1 = BaseAgent_update self my_action' opponent_action' payoff'
      in if opponent_action' \<in> set [''D'', ''B''] then self1\<lparr>triggered := True\<rparr> else self1)"

definition GrimTrigger_reset :: "grim_trigger \<Rightarrow> grim_trigger" where
  "GrimTrigger_reset self = (BaseAgent_reset self)\<lparr>triggered := False\<rparr>"

subsection \<open>Adaptive agents (agent/adv_agent.py)\<close>

text \<open>
  A Python \<open>dict\<close> is the list of its items in insertion order, its keys distinct.
  \<open>q_table\<close> is a \<open>defaultdict\<close> of \<open>defaultdict(float)\<close>: reading a missing key stores
  the default (an empty row, or \<open>0.0\<close>) under it and returns it, so a read returns the table
  as well.
\<close>

type_synonym q_row = "(string \<times> real) list"
type_synonym q_tab = "(string \<times> q_row) list"

definition table_row :: "q_tab \<Rightarrow> string \<Rightarrow> q_row \<times> q_tab" where
  "table_row t s = (case map_of t s of Some row \<Rightarrow> (row, t) | None \<Rightarrow> ([], t @ [(s, [])]))"

definition row_value :: "q_row \<Rightarrow> string \<Rightarrow> real \<times> q_row" where
  "row_value row a = (case map_of row a of Some v \<Rightarrow> (v, row) | None \<Rightarrow> (0, row @ [(a, 0)]))"

text \<open>The read \<open>self.q_table[s][a]\<close> and the assignment \<open>self.q_table[s][a] = v\<close>.\<close>

definition q_read :: "q_tab \<Rightarrow> string \<Rightarrow> string \<Rightarrow> real \<times> q_tab" where
  "q_read t s a =
     (let (row, t1) = table_row t s;
          (v, row1) = row_value row a
      in (v, AList.update s row1 t1))"

definition q_write :: "q_tab \<Rightarrow> string \<Rightarrow> string \<Rightarrow> real \<Rightarrow> q_tab" where
  "q_write t s a v =
     (let (row, t1) = table_row t s
      in AList.update s (AList.update a v row) t1)"

text \<open>\<open>max\<close> of a non-empty sequence. (On an empty one Python raises; both calls below are
  on a non-empty list: the one in \<open>update\<close> is guarded, the one in \<open>choose_action\<close> is on
  the values of two actions.)\<close>

definition py_max :: "real list \<Rightarrow> real" where
  "py_max vs = fold max (tl vs) (hd vs)"

text \<open>\<open>random.choice\<close> on a non-empty sequence; \<open>k\<close> is the integer the generator
  draws, reduced to an index of the sequence.\<close>

definition choice :: "nat \<Rightarrow> 'a list \<Rightarrow> 'a" where
  "choice k xs = xs ! (k mod length xs)"

record qlearning_agent = base_agent +
  alpha :: real
  gamma :: real
  epsilon :: real
  q_table :: q_tab

definition QLearningAgent_init :: "int \<Rightarrow> real \<Rightarrow> real \<Rightarrow> real \<Rightarrow> qlearning_agent" where
  "QLearningAgent_init agent_id' learning_rate discount_factor epsilon' =
     base_agent.extend
       ((BaseAgent_init agent_id' 50)
          \<lparr>strategy_name := Name ''Q-Learn'', ability_level := ''High''\<rparr>)
       (qlearning_agent.fields learning_rate discount_factor epsilon' [])"

text \<open>\<open>last_opponent if last_opponent else 'init'\<close>: \<open>None\<close> and the empty string are
  both false.\<close>

definition get_state :: "'a base_agent_scheme \<Rightarrow> string" where
  "get_state self =
     (case get_last_opponent_action self of
        None \<Rightarrow> ''init''
      | Some last_opponent \<Rightarrow> (if last_opponent \<noteq> [] then last_opponent else ''init''))"

text \<open>The dictionary \<open>{a: self.q_table[state][a] for a in actions}\<close>.\<close>

fun read_values :: "q_tab \<Rightarrow> string \<Rightarrow> string list \<Rightarrow> (string \<times> real) list \<times> q_tab" where
  "read_values t s [] = ([], t)"
| "read_values t s (a # as) =
     (let (v, t1) = q_read t s a;
          (rest, t2) = read_values t1 s as
      in ((a, v) # rest, t2))"

text \<open>\<open>u\<close> is the number \<open>random.random()\<close> returns and \<open>k\<close> the draw of the one
  \<open>random.choice\<close> that follows.\<close>

definition QLearningAgent_choose_action ::
  "qlearning_agent \<Rightarrow> string \<Rightarrow> real \<Rightarrow> nat \<Rightarrow> string \<times> qlearning_agent" where
  "QLearningAgent_choose_action self game_type u k =
     (let state = get_state self;
          actions = (if game_type = ''PD'' then [''C'', ''D''] else [''A'', ''B''])
      in if u < epsilon self then (choice k actions, self)
         else
           let (q_values, t1) = read_values (q_table self) state actions;
               max_q = py_max (map snd q_values);
               best_actions = map fst (filter (\<lambda>(a, q). q = max_q) q_values)
           in (choice k best_actions, self\<lparr>q_table := t1\<rparr>))"

definition QLearningAgent_update ::
  "qlearning_agent \<Rightarrow> string \<Rightarrow> string \<Rightarrow> real \<Rightarrow> qlearning_agent" where
  "QLearningAgent_update self my_action' opponent_action' payoff' =
     (let old_state = get_state self;
          self1 = BaseAgent_update self my_action' opponent_action' payoff';
          new_state = opponent_action';
          (old_q, t1) = q_read (q_table self1) old_state my_action';
          (row, t2) = table_row t1 new_state;
          max_next_q = (if row \<noteq> [] then py_max (map snd row) else 0);
          new_q = old_q + alpha self1 * (payoff' + gamma self1 * max_next_q - old_q)
      in self1\<lparr>q_table := q_write t2 old_state my_action' new_q\<rparr>)"

text \<open>\<open>reset\<close> keeps the table: the line that clears it is commented out.\<close>

definition QLearningAgent_reset :: "qlearning_agent \<Rightarrow> qlearning_agent" where
  "QLearningAgent_reset self = BaseAgent_reset self"

text \<open>\<open>opponent_action_counts\<close> is a \<open>defaultdict(int)\<close>.\<close>

type_synonym counts = "(string \<times> int) list"

definition counts_get :: "counts \<Rightarrow> string \<Rightarrow> int \<times> counts" where
  "counts_get c a = (case map_of c a of Some v \<Rightarrow> (v, c) | None \<Rightarrow> (0, c @ [(a, 0)]))"

record fictitious_play = base_agent +
  opponent_action_counts :: counts

definition FictitiousPlay_init :: "int \<Rightarrow> fictitious_play" where
  "FictitiousPlay_init agent_id' =
     base_agent.extend
       ((BaseAgent_init agent_id' 100)
          \<lparr>strategy_name := Name ''Fictitious'', ability_level := ''High''\<rparr>)
       (fictitious_play.fields [])"

text \<open>The quotient of two integers is the double nearest to it; the sums, differences
  and products of \<open>choose_action\<close> are float operations, each rounded.\<close>

definition get_opponent_probability ::
  "fictitious_play \<Rightarrow> string \<Rightarrow> real \<times> fictitious_play" where
  "get_opponent_probability self action =
     (let total = sum_list (map snd (opponent_action_counts self))
      in if total = 0 then (0.5, self)
         else
           let (v, c1) = counts_get (opponent_action_counts self) action
           in (fl (real_of_int v / real_of_int total), self\<lparr>opponent_action_counts := c1\<rparr>))"

definition FictitiousPlay_choose_action ::
  "fictitious_play \<Rightarrow> string \<Rightarrow> string \<times> fictitious_play" where
  "FictitiousPlay_choose_action self game_type =
     (if sum_list (map snd (opponent_action_counts self)) < 2
      then ((if game_type = ''PD'' then ''C'' else ''A''), self)
      else if game_type = ''PD'' then
        (let (p_coop, self1) = get_opponent_probability self ''C'';
             e_cooperate = fl (fl (3 * p_coop) + fl (0 * fl (1 - p_coop)));
             e_defect = fl (fl (5 * p_coop) + fl (1 * fl (1 - p_coop)))
         in ((if e_cooperate \<ge> e_defect then ''C'' else ''D''), self1))
      else
        (let (p_a, self1) = get_opponent_probability self ''A'';
             e_a = fl (4 * p_a);
             e_b = fl (2 * fl (1 - p_a))
         in ((if e_a \<ge> e_b then ''A'' else ''B''), self1)))"

definition FictitiousPlay_update ::
  "fictitious_play \<Rightarrow> string \<Rightarrow> string \<Rightarrow> real \<Rightarrow> fictitious_play" where
  "FictitiousPlay_update self my_action' opponent_action' payoff' =
     (let self1 = BaseAgent_update self my_action' opponent_action' payoff';
          (v, c1) = counts_get (opponent_action_counts self1) opponent_action'
      in self1\<lparr>opponent_action_counts := AList.update opponent_action' (v + 1) c1\<rparr>)"

definition FictitiousPlay_reset :: "fictitious_play \<Rightarrow> fictitious_play" where
  "FictitiousPlay_reset self = (BaseAgent_reset self)\<lparr>opponent_action_counts := []\<rparr>"

subsection \<open>The agents as one type\<close>

text \<open>One constructor for each class, and the three methods dispatched on it. A class
  that does not override \<open>update\<close> or \<open>reset\<close> runs the base class's.\<close>

datatype agent =
    AllC base_agent
  | AllD base_agent
  | Rand random_agent
  | TFT base_agent
  | Pav pavlov
  | Grim grim_trigger
  | QLearn qlearning_agent
  | Fict fictitious_play

fun choose_action :: "agent \<Rightarrow> string \<Rightarrow> real \<Rightarrow> nat \<Rightarrow> pyval \<times> agent" where
  "choose_action (AllC a) gt u k = (Str (AlwaysCooperate_choose_action a gt), AllC a)"
| "choose_action (AllD a) gt u k = (Str (AlwaysDefect_choose_action a gt), AllD a)"
| "choose_action (Rand a) gt u k = (Str (RandomAgent_choose_action a gt u), Rand a)"
| "choose_action (TFT a) gt u k = (Str (TitForTat_choose_action a gt), TFT a)"
| "choose_action (Pav a) gt u k =
     (let (act, a1) = Pavlov_choose_action a gt
      in ((case act of None \<Rightarrow> PyNone | Some s \<Rightarrow> Str s), Pav a1))"
| "choose_action (Grim a) gt u k = (Str (GrimTrigger_choose_action a gt), Grim a)"
| "choose_action (QLearn a) gt u k =
     (let (act, a1) = QLearningAgent_choose_action a gt u k in (Str act, QLearn a1))"
| "choose_action (Fict a) gt u k =
     (let (act, a1) = FictitiousPlay_choose_action a gt in (Str act, Fict a1))"

fun update :: "agent \<Rightarrow> string \<Rightarrow> string \<Rightarrow> real \<Rightarrow> agent" where
  "update (AllC a) m opp p = AllC (BaseAgent_update a m opp p)"
| "update (AllD a) m opp p = AllD (BaseAgent_update a m opp p)"
| "update (Rand a) m opp p = Rand (BaseAgent_update a m opp p)"
| "update (TFT a) m opp p = TFT (BaseAgent_update a m opp p)"
| "update (Pav a) m opp p = Pav (Pavlov_update a m opp p)"
| "update (Grim a) m opp p = Grim (GrimTrigger_update a m opp p)"
| "update (QLearn a) m opp p = QLearn (QLearningAgent_update a m opp p)"
| "update (Fict a) m opp p = Fict (FictitiousPlay_update a m opp p)"

fun reset :: "agent \<Rightarrow> agent" where
  "reset (AllC a) = AllC (BaseAgent_reset a)"
| "reset (AllD a) = AllD (BaseAgent_reset a)"
| "reset (Rand a) = Rand (BaseAgent_reset a)"
| "reset (TFT a) = TFT (BaseAgent_reset a)"
| "reset (Pav a) = Pav (BaseAgent_reset a)"
| "reset (Grim a) = Grim (GrimTrigger_reset a)"
| "reset (QLearn a) = QLearn (QLearningAgent_reset a)"
| "reset (Fict a) = Fict (FictitiousPlay_reset a)"

text \<open>The fields of the base class, read through the constructor.\<close>

fun base :: "agent \<Rightarrow> base_agent" where
  "base (AllC a) = a"
| "base (AllD a) = a"
| "base (Rand a) = base_agent.truncate a"
| "base (TFT a) = a"
| "base (Pav a) = base_agent.truncate a"
| "base (Grim a) = base_agent.truncate a"
| "base (QLearn a) = base_agent.truncate a"
| "base (Fict a) = base_agent.truncate a"

section \<open>The factory (agent/agent_factory.py)\<close>

text \<open>
  Keyword arguments are the list of their items. Calling a class with a keyword that its
  \<open>__init__\<close> does not declare (or with \<open>agent_id\<close>, already given by position) raises
  \<open>TypeError\<close>; a declared parameter that is not passed takes its default.
\<close>

type_synonym kwargs = "(string \<times> real) list"

definition accepts :: "string list \<Rightarrow> kwargs \<Rightarrow> bool" where
  "accepts names kw = list_all (\<lambda>k. k \<in> set names) (map fst kw)"

definition keyword :: "kwargs \<Rightarrow> string \<Rightarrow> real \<Rightarrow> real" where
  "keyword kw name dflt = (case map_of kw name of None \<Rightarrow> dflt | Some v \<Rightarrow> v)"

definition new_AlwaysCooperate :: "int \<Rightarrow> kwargs \<Rightarrow> error + agent" where
  "new_AlwaysCooperate i kw =
     (if accepts [] kw then Inr (AllC (AlwaysCooperate_init i)) else Inl TypeError)"

definition new_AlwaysDefect :: "int \<Rightarrow> kwargs \<Rightarrow> error + agent" where
  "new_AlwaysDefect i kw =
     (if accepts [] kw then Inr (AllD (AlwaysDefect_init i)) else Inl TypeError)"

definition new_RandomAgent :: "int \<Rightarrow> kwargs \<Rightarrow> error + agent" where
  "new_RandomAgent i kw =
     (if accepts [''coop_probability''] kw
      then Inr (Rand (RandomAgent_init i (keyword kw ''coop_probability'' 0.5)))
      else Inl TypeError)"

definition new_TitForTat :: "int \<Rightarrow> kwargs \<Rightarrow> error + agent" where
  "new_TitForTat i kw =
     (if accepts [] kw then Inr (TFT (TitForTat_init i)) else Inl TypeError)"

definition new_Pavlov :: "int \<Rightarrow> kwargs \<Rightarrow> error + agent" where
  "new_Pavlov i kw =
     (if accepts [''threshold''] kw
      then Inr (Pav (Pavlov_init i (keyword kw ''threshold'' 2.0)))
      else Inl TypeError)"

definition new_GrimTrigger :: "int \<Rightarrow> kwargs \<Rightarrow> error + agent" where
  "new_GrimTrigger i kw =
     (if accepts [] kw then Inr (Grim (GrimTrigger_init i)) else Inl TypeError)"

definition new_QLearningAgent :: "int \<Rightarrow> kwargs \<Rightarrow> error + agent" where
  "new_QLearningAgent i kw =
     (if accepts [''learning_rate'', ''discount_factor'', ''epsilon''] kw
      then Inr (QLearn (QLearningAgent_init i
                  (keyword kw ''learning_rate'' 0.1)
                  (keyword kw ''discount_factor'' 0.95)
                  (keyword kw ''epsilon'' 0.1)))
      else Inl TypeError)"

definition new_FictitiousPlay :: "int \<Rightarrow> kwargs \<Rightarrow> error + agent" where
  "new_FictitiousPlay i kw =
     (if accepts [] kw then Inr (Fict (FictitiousPlay_init i)) else Inl TypeError)"

definition AGENT_TYPES :: "(string \<times> (int \<Rightarrow> kwargs \<Rightarrow> error + agent)) list" where
  "AGENT_TYPES =
     [(''AllC'', new_AlwaysCooperate),
      (''AllD'', new_AlwaysDefect),
      (''Random'', new_RandomAgent),
      (''TFT'', new_TitForTat),
      (''Pavlov'', new_Pavlov),
      (''Grim'', new_GrimTrigger),
      (''Q-Learn'', new_QLearningAgent),
      (''Fictitious'', new_FictitiousPlay)]"

definition create :: "string \<Rightarrow> int \<Rightarrow> kwargs \<Rightarrow> error + agent" where
  "create agent_type agent_id' kw =
     (case map_of AGENT_TYPES agent_type of
        None \<Rightarrow> Inl (ValueError (''Unknown agent type: '' @ agent_type))
      | Some cls \<Rightarrow> cls agent_id' kw)"

text \<open>A list comprehension whose element may raise: the first failure ends it.\<close>

fun create_each :: "string \<Rightarrow> int list \<Rightarrow> kwargs \<Rightarrow> error + agent list" where
  "create_each agent_type [] kw = Inr []"
| "create_each agent_type (i # is) kw =
     (case create agent_type i kw of
        Inl e \<Rightarrow> Inl e
      | Inr a \<Rightarrow> (case create_each agent_type is kw of
                   Inl e \<Rightarrow> Inl e
                 | Inr rest \<Rightarrow> Inr (a # rest)))"

definition create_population :: "string \<Rightarrow> int \<Rightarrow> kwargs \<Rightarrow> error + agent list" where
  "create_population agent_type n' kw = create_each agent_type (map int [0..<nat n']) kw"

text \<open>
  \<open>create_mixed_population\<close>: the inner loop \<open>for _ in range(count)\<close> and the outer loop
  over the items of \<open>composition\<close>, both carrying \<open>agents\<close> and \<open>current_id\<close>.
\<close>

fun mixed_inner :: "string \<Rightarrow> nat \<Rightarrow> agent list \<Rightarrow> int \<Rightarrow> error + (agent list \<times> int)" where
  "mixed_inner agent_type 0 agents current_id = Inr (agents, current_id)"
| "mixed_inner agent_type (Suc c) agents current_id =
     (case create agent_type current_id [] of
        Inl e \<Rightarrow> Inl e
      | Inr a \<Rightarrow> mixed_inner agent_type c (agents @ [a]) (current_id + 1))"

fun mixed_outer :: "(string \<times> int) list \<Rightarrow> agent list \<Rightarrow> int \<Rightarrow> error + agent list" where
  "mixed_outer [] agents current_id = Inr agents"
| "mixed_outer ((agent_type, count) # items) agents current_id =
     (case mixed_inner agent_type (nat count) agents current_id of
        Inl e \<Rightarrow> Inl e
      | Inr (agents1, current_id1) \<Rightarrow> mixed_outer items agents1 current_id1)"

definition create_mixed_population :: "(string \<times> int) list \<Rightarrow> int \<Rightarrow> error + agent list" where
  "create_mixed_population composition start_id = mixed_outer composition [] start_id"

text \<open>The key of \<open>AGENT_TYPES\<close> under which an agent's class is registered.\<close>

fun agent_type_of :: "agent \<Rightarrow> string" where
  "agent_type_of (AllC a) = ''AllC''"
| "agent_type_of (AllD a) = ''AllD''"
| "agent_type_of (Rand a) = ''Random''"
| "agent_type_of (TFT a) = ''TFT''"
| "agent_type_of (Pav a) = ''Pavlov''"
| "agent_type_of (Grim a) = ''Grim''"
| "agent_type_of (QLearn a) = ''Q-Learn''"
| "agent_type_of (Fict a) = ''Fictitious''"

section \<open>Driving an agent\<close>

text \<open>
  The driver is outside the source: it calls the three methods of an agent in some order.
  A call is recorded with its arguments (for \<open>choose_action\<close> also the draws of the random
  source), and \<open>run\<close> performs a sequence of calls on an agent, keeping the agent.
\<close>

datatype call =
    ChooseAction string real nat
  | Update string string real
  | Reset

fun apply_call :: "agent \<Rightarrow> call \<Rightarrow> agent" where
  "apply_call ag (ChooseAction gt u k) = snd (choose_action ag gt u k)"
| "apply_call ag (Update m opp p) = update ag m opp p"
| "apply_call ag Reset = reset ag"

definition run :: "agent \<Rightarrow> call list \<Rightarrow> agent" where
  "run ag cs = foldl apply_call ag cs"

text \<open>The two symbols every agent uses for a game type token: \<open>C\<close> and \<open>D\<close> for
  \<open>'PD'\<close>, \<open>A\<close> and \<open>B\<close> in the other branch (the \<open>actions\<close> of the Q-learner).\<close>

definition alphabet :: "string \<Rightarrow> string list" where
  "alphabet game_type = (if game_type = ''PD'' then [''C'', ''D''] else [''A'', ''B''])"

text \<open>
  For the statements about \<open>create_mixed_population\<close>: the agents \<open>new\<close> are those that
  \<open>create\<close> builds, without keyword arguments, for the strategies \<open>ts\<close> in this order
  with the ids \<open>cur\<close>, \<open>cur + 1\<close>, ...
\<close>

definition default_built :: "agent list \<Rightarrow> int \<Rightarrow> string list \<Rightarrow> bool" where
  "default_built new cur ts \<longleftrightarrow>
     length new = length ts \<and>
     (\<forall>j < length ts. create (ts ! j) (cur + int j) [] = Inr (new ! j))"

section \<open>Reading the value table\<close>

text \<open>
  What the statements about the Q-learner observe of a table, without changing it: the
  row under a state (empty when the state is no key), the value stored for a state and an
  action (\<open>None\<close> when there is none), and the maximum of the values stored under a state,
  taken as zero when no value is stored under it.
\<close>

definition row_of :: "q_tab \<Rightarrow> string \<Rightarrow> q_row" where
  "row_of t s = (case map_of t s of None \<Rightarrow> [] | Some row \<Rightarrow> row)"

definition stored :: "q_tab \<Rightarrow> string \<Rightarrow> string \<Rightarrow> real option" where
  "stored t s a = map_of (row_of t s) a"

definition max_stored :: "q_tab \<Rightarrow> string \<Rightarrow> real" where
  "max_stored t s = (if row_of t s = [] then 0 else Max (snd ` set (row_of t s)))"

section \<open>Best response to observed frequencies\<close>

text \<open>
  The count recorded for an opponent action (zero when there is none). Then, in the words
  of the specification: the expected payoff of an own action in a matrix game, against
  an opponent who plays the symbol \<open>first\<close> with probability \<open>p\<close> and the symbol \<open>second\<close>
  otherwise, computed from the payoffs \<open>play\<close> returns; and the best response, the action
  with the higher expected payoff, the first one on a tie.
\<close>

definition count_of :: "counts \<Rightarrow> string \<Rightarrow> int" where
  "count_of c a = (case map_of c a of None \<Rightarrow> 0 | Some v \<Rightarrow> v)"

definition spec_expected_payoff ::
  "matrix_game \<Rightarrow> string \<Rightarrow> string \<Rightarrow> string \<Rightarrow> real \<Rightarrow> real option" where
  "spec_expected_payoff g mine first second p =
     (case (play g mine first, play g mine second) of
        (Inr (x, _), Inr (y, _)) \<Rightarrow> Some (p * x + (1 - p) * y)
      | _ \<Rightarrow> None)"

definition spec_best_response :: "matrix_game \<Rightarrow> string \<Rightarrow> string \<Rightarrow> real \<Rightarrow> string option" where
  "spec_best_response g first second p =
     (case (spec_expected_payoff g first first second p,
            spec_expected_payoff g second first second p) of
        (Some e1, Some e2) \<Rightarrow> Some (if e1 \<ge> e2 then first else second)
      | _ \<Rightarrow> None)"

text \<open>
  The same two notions with every operation rounded to a double: the expected payoff as
  floating-point arithmetic computes it from the game's payoffs, and the action whose
  computed expected payoff is the higher, the first one when the computed values are
  equal.
\<close>

definition float_expected_payoff ::
  "matrix_game \<Rightarrow> string \<Rightarrow> string \<Rightarrow> string \<Rightarrow> real \<Rightarrow> real option" where
  "float_expected_payoff g mine first second p =
     (case (play g mine first, play g mine second) of
        (Inr (x, _), Inr (y, _)) \<Rightarrow> Some (fl (fl (x * p) + fl (y * fl (1 - p))))
      | _ \<Rightarrow> None)"

definition float_best_response :: "matrix_game \<Rightarrow> string \<Rightarrow> string \<Rightarrow> real \<Rightarrow> string option" where
  "float_best_response g first second p =
     (case (float_expected_payoff g first first second p,
            float_expected_payoff g second first second p) of
        (Some e1, Some e2) \<Rightarrow> Some (if e1 \<ge> e2 then first else second)
      | _ \<Rightarrow> None)"

text \<open>The opponent actions that the \<open>update\<close> calls of a sequence of calls have reported
  since its last \<open>reset\<close>, in order.\<close>

fun observe :: "string list \<Rightarrow> call \<Rightarrow> string list" where
  "observe obs (Update m opp p) = obs @ [opp]"
| "observe obs (ChooseAction gt u k) = obs"
| "observe obs Reset = []"

definition observed :: "call list \<Rightarrow> string list" where
  "observed cs = foldl observe [] cs"

section \<open>Games and their tokens\<close>

text \<open>
  The token under which \<open>choose_action\<close> is asked for an action in a game (the docstring
  of the base class lists \<open>'PD'\<close>, \<open>'COORD'\<close> and \<open>'PG'\<close>); a call that reports to the agent
  only actions of a game's alphabet; and what an agent then keeps: Tit-for-Tat records
  only opponent actions of the alphabet, and the action a Pavlov agent would repeat is
  one of the alphabet.
\<close>

fun game_type_of :: "game \<Rightarrow> string" where
  "game_type_of (PD g) = ''PD''"
| "game_type_of (COORD g) = ''COORD''"
| "game_type_of (PG g) = ''PG''"

fun reports_within :: "game \<Rightarrow> call \<Rightarrow> bool" where
  "reports_within G (Update m opp p) \<longleftrightarrow> Str m \<in> set (get_actions G) \<and> Str opp \<in> set (get_actions G)"
| "reports_within G (ChooseAction gt u k) \<longleftrightarrow> True"
| "reports_within G Reset \<longleftrightarrow> True"

fun keeps_within :: "game \<Rightarrow> agent \<Rightarrow> bool" where
  "keeps_within G (TFT a) \<longleftrightarrow>
     list_all (\<lambda>rec. Str (opponent_action rec) \<in> set (get_actions G)) (memory a)"
| "keeps_within G (Pav a) \<longleftrightarrow>
     memory a = [] \<or> payoff (last (memory a)) < threshold a \<or>
     (case last_action a of None \<Rightarrow> False | Some x \<Rightarrow> Str x \<in> set (get_actions G))"
| "keeps_within G ag \<longleftrightarrow> True"

section \<open>The payoff engine\<close>

text \<open>
  Claim C7. Constructing a Prisoner's Dilemma fails (the assertion) exactly when the
  parameters violate \<open>T > R > P > S\<close>, and succeeds exactly when they satisfy it; the game
  constructed maps CC to \<open>(R, R)\<close>, CD to \<open>(S, T)\<close>, DC to \<open>(T, S)\<close> and DD to \<open>(P, P)\<close>.
  With \<open>R = 3, S = 0, T = 5, P = 1\<close> the construction succeeds, \<open>play('C', 'C')\<close> is
  \<open>(3, 3)\<close> and \<open>play('C', 'D')\<close> is \<open>(0, 5)\<close>.
\<close>

theorem PrisonersDilemma_construction_and_play:
  "(PrisonersDilemma_init R S T P = Inl AssertionError \<longleftrightarrow> \<not> (T > R \<and> R > P \<and> P > S))
   \<and> ((\<exists>g. PrisonersDilemma_init R S T P = Inr g) \<longleftrightarrow> (T > R \<and> R > P \<and> P > S))
   \<and> (\<forall>g. PrisonersDilemma_init R S T P = Inr g \<longrightarrow>
          play g ''C'' ''C'' = Inr (R, R) \<and> play g ''C'' ''D'' = Inr (S, T) \<and>
          play g ''D'' ''C'' = Inr (T, S) \<and> play g ''D'' ''D'' = Inr (P, P))"
  by (auto simp: PrisonersDilemma_init_def play_def)

theorem PrisonersDilemma_default_round_trip:
  "\<exists>g. PrisonersDilemma_init 3 0 5 1 = Inr g \<and>
       play g ''C'' ''C'' = Inr (3, 3) \<and> play g ''C'' ''D'' = Inr (0, 5)"
proof -
  have ok: "(5::real) > 3 \<and> (3::real) > 1 \<and> (1::real) > 0" by simp
  from PrisonersDilemma_construction_and_play [of 3 0 5 1] ok
  obtain g where g: "PrisonersDilemma_init 3 0 5 1 = Inr g" by blast
  with PrisonersDilemma_construction_and_play [of 3 0 5 1]
  have "play g ''C'' ''C'' = Inr (3, 3) \<and> play g ''C'' ''D'' = Inr (0, 5)" by blast
  with g show ?thesis by blast
qed

text \<open>
  Claim C8, as the code has it. In a Public Goods Game with \<open>n \<noteq> 0\<close> players, \<open>play\<close> on a
  contribution vector of length \<open>n\<close> returns the vector whose entry for the contribution
  \<open>c\<close> is \<open>(e - c) + r * sum(contributions) / n\<close>; on a vector of any other length it fails
  its assertion.
\<close>

theorem PublicGoodsGame_play_payoffs:
  "(int (length cs) = n g \<and> n g \<noteq> 0 \<longrightarrow>
      PublicGoodsGame_play g cs =
        Inr (map (\<lambda>c. (endowment g - c) + r g * sum_list cs / real_of_int (n g)) cs))
   \<and> (int (length cs) \<noteq> n g \<longrightarrow> PublicGoodsGame_play g cs = Inl AssertionError)"
  by (simp add: PublicGoodsGame_play_def)

text \<open>The example of the claim: four players, multiplier 2, endowment 10.\<close>

theorem PublicGoodsGame_play_example:
  "PublicGoodsGame_play (PublicGoodsGame_init 4 2 10) [10, 10, 0, 0] = Inr [10, 10, 20, 20]"
  using PublicGoodsGame_play_payoffs [of "[10, 10, 0, 0]" "PublicGoodsGame_init 4 2 10"]
  by (simp add: PublicGoodsGame_init_def)

text \<open>With no players the empty vector has the right length, and \<open>play\<close> divides by
  zero instead of returning the empty payoff vector.\<close>

theorem PublicGoodsGame_no_players:
  "int (length ([] :: real list)) = n (PublicGoodsGame_init 0 2 10) \<and>
   PublicGoodsGame_play (PublicGoodsGame_init 0 2 10) [] = Inl ZeroDivisionError \<and>
   PublicGoodsGame_play (PublicGoodsGame_init 0 2 10) [] \<noteq> Inr []"
  by (simp add: PublicGoodsGame_play_def PublicGoodsGame_init_def)

section \<open>Reactive agents\<close>

subsection \<open>Grim Trigger\<close>

lemma apply_call_Grim:
  "\<exists>g'. apply_call (Grim g) c = Grim g' \<and> (triggered g \<and> c \<noteq> Reset \<longrightarrow> triggered g')"
  by (cases c) (auto simp: GrimTrigger_update_def BaseAgent_update_def Let_def)

lemma run_Grim:
  "Reset \<notin> set cs \<Longrightarrow> triggered g \<Longrightarrow> \<exists>g'. run (Grim g) cs = Grim g' \<and> triggered g'"
proof (induction cs arbitrary: g)
  case Nil
  then show ?case by (simp add: run_def)
next
  case (Cons c cs)
  from Cons.prems have c: "c \<noteq> Reset" and cs: "Reset \<notin> set cs" by auto
  from apply_call_Grim [of g c] c Cons.prems(2)
  obtain g1 where g1: "apply_call (Grim g) c = Grim g1" "triggered g1" by blast
  from Cons.IH [OF cs g1(2)] g1(1) show ?case by (simp add: run_def)
qed

lemma GrimTrigger_update_triggers:
  "opp \<in> {''D'', ''B''} \<Longrightarrow> triggered (GrimTrigger_update g m opp p)"
  by (auto simp: GrimTrigger_update_def Let_def)

text \<open>
  Claim C5. Once an \<open>update\<close> call reports the opponent's action \<open>D\<close> or \<open>B\<close>, then
  after any further calls that contain no \<open>reset\<close>, \<open>choose_action\<close> returns the defect
  symbol of the game type asked for (\<open>D\<close> for \<open>'PD'\<close>, \<open>B\<close> otherwise), whatever the
  opponent did meanwhile. A call that takes a triggered agent to one that is not
  triggered is a \<open>reset\<close>, and \<open>reset\<close> does so.
\<close>

theorem GrimTrigger_absorbing:
  "(opp \<in> {''D'', ''B''} \<and> Reset \<notin> set cs \<longrightarrow>
      fst (choose_action (run (update (Grim g) m opp p) cs) gt u k)
        = Str (if gt = ''PD'' then ''D'' else ''B''))
   \<and> (\<forall>c g'. triggered g \<and> apply_call (Grim g) c = Grim g' \<and> \<not> triggered g' \<longrightarrow> c = Reset)
   \<and> (\<exists>g'. reset (Grim g) = Grim g' \<and> \<not> triggered g')"
proof (intro conjI impI allI)
  assume a: "opp \<in> {''D'', ''B''} \<and> Reset \<notin> set cs"
  then have "triggered (GrimTrigger_update g m opp p)" by (simp add: GrimTrigger_update_triggers)
  with a run_Grim [of cs "GrimTrigger_update g m opp p"]
  obtain g' where "run (Grim (GrimTrigger_update g m opp p)) cs = Grim g'" "triggered g'" by blast
  then show "fst (choose_action (run (update (Grim g) m opp p) cs) gt u k)
        = Str (if gt = ''PD'' then ''D'' else ''B'')"
    by (simp add: GrimTrigger_choose_action_def)
next
  fix c g' assume "triggered g \<and> apply_call (Grim g) c = Grim g' \<and> \<not> triggered g'"
  with apply_call_Grim [of g c] show "c = Reset" by auto
next
  show "\<exists>g'. reset (Grim g) = Grim g' \<and> \<not> triggered g'"
    by (simp add: GrimTrigger_reset_def)
qed

text \<open>The run of the repository's test, continued, and the same in the coordination
  game; after a \<open>reset\<close> the agent cooperates again.\<close>

theorem GrimTrigger_absorbing_witness:
  "fst (choose_action
         (run (update (Grim (GrimTrigger_init 5)) ''C'' ''D'' 0)
              [ChooseAction ''PD'' 0 0, Update ''D'' ''C'' 5, Update ''D'' ''C'' 5])
         ''PD'' 0 0) = Str ''D''
   \<and> fst (choose_action (update (Grim (GrimTrigger_init 5)) ''A'' ''B'' 0) ''COORD'' 0 0) = Str ''B''
   \<and> fst (choose_action (reset (update (Grim (GrimTrigger_init 5)) ''C'' ''D'' 0)) ''PD'' 0 0) = Str ''C''"
proof -
  have 1: "fst (choose_action
         (run (update (Grim (GrimTrigger_init 5)) ''C'' ''D'' 0)
              [ChooseAction ''PD'' 0 0, Update ''D'' ''C'' 5, Update ''D'' ''C'' 5])
         ''PD'' 0 0) = Str ''D''"
    using GrimTrigger_absorbing [of "''D''" "[ChooseAction ''PD'' 0 0, Update ''D'' ''C'' 5, Update ''D'' ''C'' 5]"
        "GrimTrigger_init 5" "''C''" 0 "''PD''" 0 0]
    by simp
  have 2: "fst (choose_action (update (Grim (GrimTrigger_init 5)) ''A'' ''B'' 0) ''COORD'' 0 0) = Str ''B''"
    using GrimTrigger_absorbing [of "''B''" "[]" "GrimTrigger_init 5" "''A''" 0 "''COORD''" 0 0]
    by (simp add: run_def)
  have 3: "fst (choose_action (reset (update (Grim (GrimTrigger_init 5)) ''C'' ''D'' 0)) ''PD'' 0 0) = Str ''C''"
    by (simp add: GrimTrigger_reset_def GrimTrigger_choose_action_def)
  from 1 2 3 show ?thesis by blast
qed

subsection \<open>Win-Stay-Lose-Shift\<close>

lemma apply_call_Pav:
  "\<exists>x'. apply_call (Pav x) c = Pav x' \<and> maxlen x' = maxlen x \<and> threshold x' = threshold x"
  by (cases c)
     (auto simp: Pavlov_choose_action_def Pavlov_update_def BaseAgent_update_def
                 BaseAgent_reset_def Let_def split: prod.splits)

lemma run_Pav:
  "\<exists>x'. run (Pav x) cs = Pav x' \<and> maxlen x' = maxlen x \<and> threshold x' = threshold x"
proof (induction cs arbitrary: x)
  case Nil
  show ?case by (simp add: run_def)
next
  case (Cons c cs)
  from apply_call_Pav [of x c]
  obtain x1 where x1: "apply_call (Pav x) c = Pav x1" "maxlen x1 = maxlen x"
      "threshold x1 = threshold x" by blast
  from Cons.IH [of x1] x1 show ?case by (simp add: run_def)
qed

lemma Pavlov_init_fields:
  "maxlen (Pavlov_init i th) = 1" "threshold (Pavlov_init i th) = th"
  "memory (Pavlov_init i th) = []"
  by (simp_all add: Pavlov_init_def BaseAgent_init_def base_agent.extend_def pavlov.fields_def)

lemma Pavlov_after_update:
  assumes "maxlen x = 1"
  shows "fst (Pavlov_choose_action (Pavlov_update x a opp p) gt) =
           Some (if p \<ge> threshold x then a
                 else if gt = ''PD'' then (if a = ''C'' then ''D'' else ''C'')
                 else (if a = ''A'' then ''B'' else ''A''))"
  using assms
  by (cases "memory x")
     (simp_all add: Pavlov_choose_action_def Pavlov_update_def BaseAgent_update_def
                deque_append_def Let_def)

text \<open>
  Claim C6. A new Pavlov agent with threshold \<open>th\<close> first returns the cooperative symbol.
  After any calls, once an \<open>update\<close> has recorded the own action \<open>a\<close> with payoff \<open>p\<close>,
  the next \<open>choose_action\<close> returns \<open>a\<close> when \<open>p \<ge> th\<close>, and when \<open>p < th\<close> and \<open>a\<close> is a
  symbol of the game type's alphabet it returns the other symbol of that alphabet.
\<close>

theorem Pavlov_win_stay_lose_shift:
  "fst (choose_action (Pav (Pavlov_init i th)) gt u k) = Str (if gt = ''PD'' then ''C'' else ''A'')
   \<and> (p \<ge> th \<longrightarrow>
        fst (choose_action (update (run (Pav (Pavlov_init i th)) cs) a opp p) gt u k) = Str a)
   \<and> (p < th \<and> a \<in> set (alphabet gt) \<longrightarrow>
        (\<exists>b. fst (choose_action (update (run (Pav (Pavlov_init i th)) cs) a opp p) gt u k) = Str b
             \<and> b \<in> set (alphabet gt) \<and> b \<noteq> a))"
proof -
  from run_Pav [of "Pavlov_init i th" cs]
  obtain x where x: "run (Pav (Pavlov_init i th)) cs = Pav x" "maxlen x = 1" "threshold x = th"
    by (auto simp: Pavlov_init_fields)
  have first: "fst (choose_action (Pav (Pavlov_init i th)) gt u k)
                 = Str (if gt = ''PD'' then ''C'' else ''A'')"
    by (simp add: Pavlov_choose_action_def Pavlov_init_fields Let_def split: prod.splits)
  have later: "fst (choose_action (update (run (Pav (Pavlov_init i th)) cs) a opp p) gt u k)
          = Str (if p \<ge> th then a
                 else if gt = ''PD'' then (if a = ''C'' then ''D'' else ''C'')
                 else (if a = ''A'' then ''B'' else ''A''))"
    using Pavlov_after_update [OF x(2), of a opp p gt] x(1,3)
    by (simp add: split_beta)
  from first later show ?thesis by (auto simp: alphabet_def)
qed

text \<open>The three rounds of the repository's test, with the default threshold 2.\<close>

theorem Pavlov_win_stay_lose_shift_witness:
  "fst (choose_action (Pav (Pavlov_init 4 2)) ''PD'' 0 0) = Str ''C''
   \<and> fst (choose_action
            (update (run (Pav (Pavlov_init 4 2)) [ChooseAction ''PD'' 0 0]) ''C'' ''C'' 3)
            ''PD'' 0 0) = Str ''C''
   \<and> fst (choose_action
            (update (run (Pav (Pavlov_init 4 2))
                       [ChooseAction ''PD'' 0 0, Update ''C'' ''C'' 3, ChooseAction ''PD'' 0 0])
                    ''C'' ''D'' 0)
            ''PD'' 0 0) = Str ''D''"
proof -
  have a: "''C'' \<in> set (alphabet ''PD'')" by (simp add: alphabet_def)
  have 1: "fst (choose_action (Pav (Pavlov_init 4 2)) ''PD'' 0 0) = Str ''C''"
    using Pavlov_win_stay_lose_shift [of 4 2 "''PD''" 0 0 3 "[]" "''C''" "''C''"] by simp
  have 2: "fst (choose_action
            (update (run (Pav (Pavlov_init 4 2)) [ChooseAction ''PD'' 0 0]) ''C'' ''C'' 3)
            ''PD'' 0 0) = Str ''C''"
    using Pavlov_win_stay_lose_shift [of 4 2 "''PD''" 0 0 3 "[ChooseAction ''PD'' 0 0]" "''C''" "''C''"]
    by simp
  have 3: "fst (choose_action
            (update (run (Pav (Pavlov_init 4 2))
                       [ChooseAction ''PD'' 0 0, Update ''C'' ''C'' 3, ChooseAction ''PD'' 0 0])
                    ''C'' ''D'' 0)
            ''PD'' 0 0) = Str ''D''"
    using Pavlov_win_stay_lose_shift [of 4 2 "''PD''" 0 0 0
        "[ChooseAction ''PD'' 0 0, Update ''C'' ''C'' 3, ChooseAction ''PD'' 0 0]" "''C''" "''D''"] a
    by (auto simp: alphabet_def)
  from 1 2 3 show ?thesis by blast
qed

section \<open>Reset\<close>

text \<open>
  Claim C4, as the code has it. For every agent \<open>reset\<close> empties the memory and sets the
  total payoff and the round count to zero. The Q-learner's \<open>reset\<close> leaves its value
  table (and its learning parameters) as they were; the frequency-based responder's
  \<open>reset\<close> clears its opponent-action counts.
\<close>

theorem reset_clears_base_keeps_q_table:
  "memory (base (reset ag)) = [] \<and> total_payoff (base (reset ag)) = 0
   \<and> round_count (base (reset ag)) = 0
   \<and> reset (QLearn q) = QLearn (QLearningAgent_reset q)
   \<and> q_table (QLearningAgent_reset q) = q_table q
   \<and> alpha (QLearningAgent_reset q) = alpha q
   \<and> gamma (QLearningAgent_reset q) = gamma q
   \<and> epsilon (QLearningAgent_reset q) = epsilon q
   \<and> reset (Fict f) = Fict (FictitiousPlay_reset f)
   \<and> opponent_action_counts (FictitiousPlay_reset f) = []"
  by (cases ag)
     (simp_all add: BaseAgent_reset_def GrimTrigger_reset_def QLearningAgent_reset_def
        FictitiousPlay_reset_def base_agent.truncate_def)

text \<open>After one observed defection the responder's counts are \<open>{'D': 1}\<close>; a \<open>reset\<close>
  does not keep them.\<close>

theorem FictitiousPlay_reset_forgets_counts:
  "opponent_action_counts (FictitiousPlay_update (FictitiousPlay_init 7) ''C'' ''D'' 0)
     = [(''D'', 1)]
   \<and> opponent_action_counts
       (FictitiousPlay_reset (FictitiousPlay_update (FictitiousPlay_init 7) ''C'' ''D'' 0))
     \<noteq> opponent_action_counts (FictitiousPlay_update (FictitiousPlay_init 7) ''C'' ''D'' 0)"
  by (simp add: FictitiousPlay_reset_def FictitiousPlay_update_def FictitiousPlay_init_def
       BaseAgent_update_def BaseAgent_reset_def BaseAgent_init_def counts_get_def
       base_agent.extend_def fictitious_play.fields_def Let_def)

section \<open>The factory\<close>

lemmas new_defs = new_AlwaysCooperate_def new_AlwaysDefect_def new_RandomAgent_def
  new_TitForTat_def new_Pavlov_def new_GrimTrigger_def new_QLearningAgent_def
  new_FictitiousPlay_def

lemmas init_defs = AlwaysCooperate_init_def AlwaysDefect_init_def RandomAgent_init_def
  TitForTat_init_def Pavlov_init_def GrimTrigger_init_def QLearningAgent_init_def
  FictitiousPlay_init_def BaseAgent_init_def base_agent.extend_def base_agent.truncate_def
  random_agent.fields_def pavlov.fields_def grim_trigger.fields_def
  qlearning_agent.fields_def fictitious_play.fields_def

lemma registry_keys:
  "set (map fst AGENT_TYPES) =
     {''AllC'', ''AllD'', ''Random'', ''TFT'', ''Pavlov'', ''Grim'', ''Q-Learn'', ''Fictitious''}"
  by (auto simp: AGENT_TYPES_def)

lemma create_unknown:
  "t \<notin> set (map fst AGENT_TYPES) \<Longrightarrow> create t i kw = Inl (ValueError (''Unknown agent type: '' @ t))"
proof -
  assume "t \<notin> set (map fst AGENT_TYPES)"
  then have "map_of AGENT_TYPES t = None" by (simp add: map_of_eq_None_iff)
  then show ?thesis by (simp add: create_def)
qed

lemma create_known:
  assumes "t \<in> set (map fst AGENT_TYPES)"
  shows "create t i kw = Inl TypeError \<or> (\<exists>a. create t i kw = Inr a)"
  using assms unfolding registry_keys
  by (auto simp: create_def AGENT_TYPES_def new_defs)

lemma create_default:
  assumes "t \<in> set (map fst AGENT_TYPES)"
  shows "\<exists>a. create t i [] = Inr a"
  using assms unfolding registry_keys
  by (auto simp: create_def AGENT_TYPES_def new_defs accepts_def)

lemma create_Inr:
  assumes "create t i kw = Inr a"
  shows "agent_type_of a = t \<and> agent_id (base a) = i"
proof -
  have "t \<in> set (map fst AGENT_TYPES)"
    using assms create_unknown [of t i kw] by auto
  then show ?thesis using assms unfolding registry_keys
    by (auto simp: create_def AGENT_TYPES_def new_defs init_defs split: if_splits)
qed

lemma create_default_parameters:
  assumes "create t i [] = Inr a"
  shows "(\<forall>x. a = Rand x \<longrightarrow> coop_prob x = 0.5)
       \<and> (\<forall>q. a = QLearn q \<longrightarrow> alpha q = 0.1 \<and> gamma q = 0.95 \<and> epsilon q = 0.1)
       \<and> (\<forall>x. a = Pav x \<longrightarrow> threshold x = 2)"
proof -
  have "t \<in> set (map fst AGENT_TYPES)"
    using assms create_unknown [of t i "[]"] by auto
  then show ?thesis using assms unfolding registry_keys
    by (auto simp: create_def AGENT_TYPES_def new_defs init_defs keyword_def split: if_splits)
qed

text \<open>What the inner loop appends, when it succeeds.\<close>

lemma mixed_inner_Inr:
  "mixed_inner t c ags cur = Inr (res, cur') \<Longrightarrow>
     cur' = cur + int c \<and>
     (\<exists>new. res = ags @ new \<and> length new = c \<and>
        (\<forall>j < c. create t (cur + int j) [] = Inr (new ! j)))"
proof (induction c arbitrary: ags cur)
  case 0
  then show ?case by simp
next
  case (Suc c)
  from Suc.prems obtain a where a: "create t cur [] = Inr a"
    and rest: "mixed_inner t c (ags @ [a]) (cur + 1) = Inr (res, cur')"
    by (auto split: sum.splits)
  from Suc.IH [OF rest] obtain new where new: "cur' = cur + 1 + int c"
    "res = (ags @ [a]) @ new" "length new = c"
    "\<forall>j < c. create t (cur + 1 + int j) [] = Inr (new ! j)" by blast
  have "\<forall>j < Suc c. create t (cur + int j) [] = Inr ((a # new) ! j)"
  proof (intro allI impI)
    fix j assume "j < Suc c"
    then show "create t (cur + int j) [] = Inr ((a # new) ! j)"
      using a new(4) by (cases j) (auto simp: algebra_simps)
  qed
  with new show ?case by (intro conjI exI [of _ "a # new"]) auto
qed

text \<open>The inner loop succeeds for a registered strategy, and when it has nothing to do.\<close>

lemma mixed_inner_succeeds:
  "c = 0 \<or> t \<in> set (map fst AGENT_TYPES) \<Longrightarrow> \<exists>res cur'. mixed_inner t c ags cur = Inr (res, cur')"
proof (induction c arbitrary: ags cur)
  case 0
  then show ?case by simp
next
  case (Suc c)
  then have t: "t \<in> set (map fst AGENT_TYPES)" by simp
  from create_default [OF t, of cur] obtain a where "create t cur [] = Inr a" by blast
  with Suc.IH [of "ags @ [a]" "cur + 1"] t show ?case by auto
qed

lemma mixed_outer_Inr:
  "mixed_outer items ags cur = Inr res \<Longrightarrow>
     \<exists>new. res = ags @ new \<and>
       default_built new cur (concat (map (\<lambda>(t, c). replicate (nat c) t) items))"
proof (induction items arbitrary: ags cur)
  case Nil
  then show ?case by (simp add: default_built_def)
next
  case (Cons tc items)
  obtain t c where tc: "tc = (t, c)" by (cases tc)
  from Cons.prems tc obtain ags1 cur1 where
    inner: "mixed_inner t (nat c) ags cur = Inr (ags1, cur1)"
    and outer: "mixed_outer items ags1 cur1 = Inr res"
    by (auto split: sum.splits)
  from mixed_inner_Inr [OF inner] obtain new1 where new1: "cur1 = cur + int (nat c)"
    "ags1 = ags @ new1" "length new1 = nat c"
    "\<forall>j < nat c. create t (cur + int j) [] = Inr (new1 ! j)" by blast
  let ?ts = "concat (map (\<lambda>(t, c). replicate (nat c) t) items)"
  from Cons.IH [OF outer] obtain new2 where new2: "res = ags1 @ new2"
    "default_built new2 cur1 ?ts" by blast
  have "default_built (new1 @ new2) cur (replicate (nat c) t @ ?ts)"
    unfolding default_built_def
  proof (intro conjI allI impI)
    show "length (new1 @ new2) = length (replicate (nat c) t @ ?ts)"
      using new1(3) new2(2) by (simp add: default_built_def)
  next
    fix j assume j: "j < length (replicate (nat c) t @ ?ts)"
    show "create ((replicate (nat c) t @ ?ts) ! j) (cur + int j) [] = Inr ((new1 @ new2) ! j)"
    proof (cases "j < nat c")
      case True
      then show ?thesis using new1(3,4) by (simp add: nth_append)
    next
      case False
      then have j2: "j - nat c < length ?ts" using j by simp
      have eq: "cur1 + int (j - nat c) = cur + int j" using False new1(1) by simp
      from new2(2) j2 have "create (?ts ! (j - nat c)) (cur1 + int (j - nat c)) []
          = Inr (new2 ! (j - nat c))"
        by (simp add: default_built_def)
      then have "create (?ts ! (j - nat c)) (cur + int j) [] = Inr (new2 ! (j - nat c))"
        by (simp only: eq)
      then show ?thesis using False new1(3) by (simp add: nth_append)
    qed
  qed
  with new1(2) new2(1) tc show ?case by (intro exI [of _ "new1 @ new2"]) simp
qed

lemma mixed_outer_succeeds:
  "\<forall>(t, c) \<in> set items. c > 0 \<longrightarrow> t \<in> set (map fst AGENT_TYPES) \<Longrightarrow>
     \<exists>res. mixed_outer items ags cur = Inr res"
proof (induction items arbitrary: ags cur)
  case Nil
  then show ?case by simp
next
  case (Cons tc items)
  obtain t c where tc: "tc = (t, c)" by (cases tc)
  with Cons.prems have "nat c = 0 \<or> t \<in> set (map fst AGENT_TYPES)" by auto
  from mixed_inner_succeeds [OF this, of ags cur]
  obtain ags1 cur1 where "mixed_inner t (nat c) ags cur = Inr (ags1, cur1)" by blast
  moreover from Cons.prems have "\<forall>(t, c) \<in> set items. c > 0 \<longrightarrow> t \<in> set (map fst AGENT_TYPES)"
    by simp
  from Cons.IH [OF this, of ags1 cur1] obtain res where "mixed_outer items ags1 cur1 = Inr res"
    by blast
  ultimately show ?case using tc by auto
qed

lemma default_built_ids_types:
  assumes "default_built new cur ts"
  shows "map (\<lambda>a. agent_id (base a)) new = map (\<lambda>j. cur + int j) [0..<length new]"
    and "map agent_type_of new = ts"
proof -
  from assms have len: "length new = length ts"
    and each: "\<And>j. j < length ts \<Longrightarrow> create (ts ! j) (cur + int j) [] = Inr (new ! j)"
    by (auto simp: default_built_def)
  have nth: "agent_type_of (new ! j) = ts ! j \<and> agent_id (base (new ! j)) = cur + int j"
    if "j < length ts" for j
    using create_Inr [OF each [OF that]] .
  show "map (\<lambda>a. agent_id (base a)) new = map (\<lambda>j. cur + int j) [0..<length new]"
    using len nth by (intro nth_equalityI) simp_all
  show "map agent_type_of new = ts"
    using len nth by (intro nth_equalityI) simp_all
qed

text \<open>
  Claim C9. \<open>create\<close> raises \<open>ValueError\<close> exactly when the strategy identifier is not a
  key of \<open>AGENT_TYPES\<close>, and then returns no agent. When every strategy of the
  composition with a positive count is registered, \<open>create_mixed_population\<close> returns
  agents whose ids are \<open>start_id\<close>, \<open>start_id + 1\<close>, ... and whose strategies are the
  composition's, each repeated \<open>count\<close> times, in the order of its items.
\<close>

theorem AgentFactory_create_and_mixed_population:
  "((\<exists>msg. create t i kw = Inl (ValueError msg)) \<longleftrightarrow> t \<notin> set (map fst AGENT_TYPES))
   \<and> (t \<notin> set (map fst AGENT_TYPES) \<longrightarrow> (\<forall>a. create t i kw \<noteq> Inr a))
   \<and> ((\<forall>(ty, c) \<in> set items. c > 0 \<longrightarrow> ty \<in> set (map fst AGENT_TYPES)) \<longrightarrow>
        (\<exists>ags. create_mixed_population items start = Inr ags
           \<and> map (\<lambda>a. agent_id (base a)) ags = map (\<lambda>j. start + int j) [0..<length ags]
           \<and> map agent_type_of ags = concat (map (\<lambda>(ty, c). replicate (nat c) ty) items)))"
proof (intro conjI impI)
  show "(\<exists>msg. create t i kw = Inl (ValueError msg)) \<longleftrightarrow> t \<notin> set (map fst AGENT_TYPES)"
  proof
    assume "\<exists>msg. create t i kw = Inl (ValueError msg)"
    then obtain msg where msg: "create t i kw = Inl (ValueError msg)" by blast
    show "t \<notin> set (map fst AGENT_TYPES)"
    proof
      assume "t \<in> set (map fst AGENT_TYPES)"
      from create_known [OF this, of i kw] msg show False by auto
    qed
  next
    assume "t \<notin> set (map fst AGENT_TYPES)"
    then show "\<exists>msg. create t i kw = Inl (ValueError msg)"
      using create_unknown [of t i kw] by simp
  qed
next
  assume "t \<notin> set (map fst AGENT_TYPES)"
  then show "\<forall>a. create t i kw \<noteq> Inr a" using create_unknown [of t i kw] by simp
next
  assume reg: "\<forall>(ty, c) \<in> set items. c > 0 \<longrightarrow> ty \<in> set (map fst AGENT_TYPES)"
  from mixed_outer_succeeds [OF reg, of "[]" start]
  obtain ags where ags: "mixed_outer items [] start = Inr ags" by blast
  from mixed_outer_Inr [OF ags] have
    "default_built ags start (concat (map (\<lambda>(t, c). replicate (nat c) t) items))" by simp
  from default_built_ids_types [OF this] ags
  show "\<exists>ags. create_mixed_population items start = Inr ags
           \<and> map (\<lambda>a. agent_id (base a)) ags = map (\<lambda>j. start + int j) [0..<length ags]
           \<and> map agent_type_of ags = concat (map (\<lambda>(ty, c). replicate (nat c) ty) items)"
    by (simp add: create_mixed_population_def)
qed

text \<open>The examples of the claim: \<open>create("Bogus", 0)\<close>, and the composition
  \<open>{"TFT": 2, "AllD": 1}\<close> from id 10.\<close>

theorem AgentFactory_example:
  "(\<exists>msg. create ''Bogus'' 0 [] = Inl (ValueError msg))
   \<and> (\<exists>ags. create_mixed_population [(''TFT'', 2), (''AllD'', 1)] 10 = Inr ags
         \<and> map (\<lambda>a. agent_id (base a)) ags = [10, 11, 12]
         \<and> map agent_type_of ags = [''TFT'', ''TFT'', ''AllD''])"
proof -
  have bogus: "''Bogus'' \<notin> set (map fst AGENT_TYPES)" by (simp add: AGENT_TYPES_def)
  have reg: "\<forall>(ty, c) \<in> set [(''TFT'', 2::int), (''AllD'', 1)]. c > 0 \<longrightarrow> ty \<in> set (map fst AGENT_TYPES)"
    by (simp add: AGENT_TYPES_def)
  from AgentFactory_create_and_mixed_population [of "''Bogus''" 0 "[]" "[(''TFT'', 2), (''AllD'', 1)]" 10]
    bogus reg
  obtain ags where 1: "\<exists>msg. create ''Bogus'' 0 [] = Inl (ValueError msg)"
    and ags: "create_mixed_population [(''TFT'', 2), (''AllD'', 1)] 10 = Inr ags"
      "map (\<lambda>a. agent_id (base a)) ags = map (\<lambda>j. 10 + int j) [0..<length ags]"
      "map agent_type_of ags = concat (map (\<lambda>(ty, c). replicate (nat c) ty) [(''TFT'', 2::int), (''AllD'', 1)])"
    by blast
  from ags(3) have types: "map agent_type_of ags = [''TFT'', ''TFT'', ''AllD'']"
    by (simp add: numeral_2_eq_2)
  then have "length ags = 3" by (metis length_map length_Cons list.size(3) numeral_3_eq_3)
  then have "[0..<length ags] = [0, 1, 2]" by (simp add: upt_rec)
  with ags(2) have ids: "map (\<lambda>a. agent_id (base a)) ags = [10, 11, 12]" by simp
  from ags(1) ids types have
    "\<exists>ags. create_mixed_population [(''TFT'', 2), (''AllD'', 1)] 10 = Inr ags
         \<and> map (\<lambda>a. agent_id (base a)) ags = [10, 11, 12]
         \<and> map agent_type_of ags = [''TFT'', ''TFT'', ''AllD'']"
    by (intro exI [of _ ags] conjI)
  with 1 show ?thesis by (rule conjI)
qed

lemma create_each_Inr:
  "create_each t is kw = Inr ags \<Longrightarrow>
     length ags = length is \<and> (\<forall>j < length is. create t (is ! j) kw = Inr (ags ! j))"
proof (induction "is" arbitrary: ags)
  case Nil
  then show ?case by simp
next
  case (Cons i "is")
  from Cons.prems obtain a rest where a: "create t i kw = Inr a"
    and rest: "create_each t is kw = Inr rest" and ags: "ags = a # rest"
    by (auto split: sum.splits)
  from Cons.IH [OF rest] have len: "length rest = length is"
    and each: "\<forall>j < length is. create t (is ! j) kw = Inr (rest ! j)" by auto
  have "\<forall>j < length (i # is). create t ((i # is) ! j) kw = Inr (ags ! j)"
  proof (intro allI impI)
    fix j assume "j < length (i # is)"
    then show "create t ((i # is) ! j) kw = Inr (ags ! j)"
      using a each ags by (cases j) auto
  qed
  with len ags show ?case by simp
qed

lemma accepts_subset: "accepts names kw \<longleftrightarrow> set (map fst kw) \<subseteq> set names"
  by (auto simp: accepts_def list_all_iff)

text \<open>
  Claim C10. Every agent of a mixed population is the one \<open>create\<close> builds from its
  strategy identifier and its id with no keyword argument, so a random agent in it has
  cooperation probability 0.5, a Pavlov agent threshold 2, and a Q-learner
  \<open>alpha = 0.1\<close>, \<open>gamma = 0.95\<close>, \<open>epsilon = 0.1\<close>. \<open>create\<close> passes its keyword
  arguments to the registered constructor: each parameter of the random agent, of Pavlov
  and of the Q-learner takes the value passed under its name, or its default when none
  is passed, and a keyword that the constructor does not declare is a \<open>TypeError\<close> (so
  is any keyword for the strategies without parameters). Every agent of
  \<open>create_population\<close> is built by \<open>create\<close> with the keyword arguments given.
\<close>

theorem mixed_population_takes_defaults:
  "(create_mixed_population items start = Inr ags \<longrightarrow>
      (\<forall>a \<in> set ags.
          create (agent_type_of a) (agent_id (base a)) [] = Inr a
        \<and> (\<forall>x. a = Rand x \<longrightarrow> coop_prob x = 0.5)
        \<and> (\<forall>x. a = Pav x \<longrightarrow> threshold x = 2)
        \<and> (\<forall>q. a = QLearn q \<longrightarrow> alpha q = 0.1 \<and> gamma q = 0.95 \<and> epsilon q = 0.1)))
   \<and> (\<forall>cls. map_of AGENT_TYPES t = Some cls \<longrightarrow> create t i kw = cls i kw)
   \<and> (set (map fst kw) \<subseteq> {''coop_probability''} \<longrightarrow>
        create ''Random'' i kw =
          Inr (Rand (RandomAgent_init i
                 (case map_of kw ''coop_probability'' of None \<Rightarrow> 0.5 | Some v \<Rightarrow> v))))
   \<and> (set (map fst kw) \<subseteq> {''threshold''} \<longrightarrow>
        create ''Pavlov'' i kw =
          Inr (Pav (Pavlov_init i (case map_of kw ''threshold'' of None \<Rightarrow> 2 | Some v \<Rightarrow> v))))
   \<and> (set (map fst kw) \<subseteq> {''learning_rate'', ''discount_factor'', ''epsilon''} \<longrightarrow>
        create ''Q-Learn'' i kw =
          Inr (QLearn (QLearningAgent_init i
                 (case map_of kw ''learning_rate'' of None \<Rightarrow> 0.1 | Some v \<Rightarrow> v)
                 (case map_of kw ''discount_factor'' of None \<Rightarrow> 0.95 | Some v \<Rightarrow> v)
                 (case map_of kw ''epsilon'' of None \<Rightarrow> 0.1 | Some v \<Rightarrow> v))))
   \<and> (t \<in> {''AllC'', ''AllD'', ''TFT'', ''Grim'', ''Fictitious''} \<and> kw \<noteq> [] \<longrightarrow>
        create t i kw = Inl TypeError)
   \<and> (\<not> set (map fst kw) \<subseteq> {''coop_probability''} \<longrightarrow> create ''Random'' i kw = Inl TypeError)
   \<and> (\<not> set (map fst kw) \<subseteq> {''threshold''} \<longrightarrow> create ''Pavlov'' i kw = Inl TypeError)
   \<and> (\<not> set (map fst kw) \<subseteq> {''learning_rate'', ''discount_factor'', ''epsilon''} \<longrightarrow>
        create ''Q-Learn'' i kw = Inl TypeError)
   \<and> create ''Random'' i [(''coop_probability'', c)] = Inr (Rand (RandomAgent_init i c))
   \<and> create ''Pavlov'' i [(''threshold'', th)] = Inr (Pav (Pavlov_init i th))
   \<and> create ''Q-Learn'' i [(''learning_rate'', al), (''discount_factor'', ga), (''epsilon'', ep)]
        = Inr (QLearn (QLearningAgent_init i al ga ep))
   \<and> (create_population t m kw = Inr pop \<longrightarrow>
        length pop = nat m \<and> (\<forall>j < nat m. create t (int j) kw = Inr (pop ! j)))"
proof -
  have mixed: "\<forall>a \<in> set ags.
          create (agent_type_of a) (agent_id (base a)) [] = Inr a
        \<and> (\<forall>x. a = Rand x \<longrightarrow> coop_prob x = 0.5)
        \<and> (\<forall>x. a = Pav x \<longrightarrow> threshold x = 2)
        \<and> (\<forall>q. a = QLearn q \<longrightarrow> alpha q = 0.1 \<and> gamma q = 0.95 \<and> epsilon q = 0.1)"
    if res: "create_mixed_population items start = Inr ags"
  proof
    let ?ts = "concat (map (\<lambda>(t, c). replicate (nat c) t) items)"
    from mixed_outer_Inr [of items "[]" start ags] res
    have built: "default_built ags start ?ts" by (simp add: create_mixed_population_def)
    fix a assume "a \<in> set ags"
    then obtain j where j: "j < length ags" "a = ags ! j" by (auto simp: in_set_conv_nth)
    with built have cr: "create (?ts ! j) (start + int j) [] = Inr a"
      by (simp add: default_built_def)
    from create_Inr [OF cr] cr have "create (agent_type_of a) (agent_id (base a)) [] = Inr a"
      by simp
    with create_default_parameters [OF cr]
    show "create (agent_type_of a) (agent_id (base a)) [] = Inr a
        \<and> (\<forall>x. a = Rand x \<longrightarrow> coop_prob x = 0.5)
        \<and> (\<forall>x. a = Pav x \<longrightarrow> threshold x = 2)
        \<and> (\<forall>q. a = QLearn q \<longrightarrow> alpha q = 0.1 \<and> gamma q = 0.95 \<and> epsilon q = 0.1)"
      by blast
  qed
  have fwd: "\<forall>cls. map_of AGENT_TYPES t = Some cls \<longrightarrow> create t i kw = cls i kw"
    by (simp add: create_def)
  have rnd: "create ''Random'' i kw =
          Inr (Rand (RandomAgent_init i
                 (case map_of kw ''coop_probability'' of None \<Rightarrow> 0.5 | Some v \<Rightarrow> v)))"
    if "set (map fst kw) \<subseteq> {''coop_probability''}"
    using that by (simp add: create_def AGENT_TYPES_def new_RandomAgent_def accepts_subset keyword_def split: option.splits)
  have pav: "create ''Pavlov'' i kw =
          Inr (Pav (Pavlov_init i (case map_of kw ''threshold'' of None \<Rightarrow> 2 | Some v \<Rightarrow> v)))"
    if "set (map fst kw) \<subseteq> {''threshold''}"
    using that by (simp add: create_def AGENT_TYPES_def new_Pavlov_def accepts_subset keyword_def split: option.splits)
  have ql: "create ''Q-Learn'' i kw =
          Inr (QLearn (QLearningAgent_init i
                 (case map_of kw ''learning_rate'' of None \<Rightarrow> 0.1 | Some v \<Rightarrow> v)
                 (case map_of kw ''discount_factor'' of None \<Rightarrow> 0.95 | Some v \<Rightarrow> v)
                 (case map_of kw ''epsilon'' of None \<Rightarrow> 0.1 | Some v \<Rightarrow> v)))"
    if "set (map fst kw) \<subseteq> {''learning_rate'', ''discount_factor'', ''epsilon''}"
    using that
    by (simp add: create_def AGENT_TYPES_def new_QLearningAgent_def accepts_subset keyword_def
          split: option.splits)
  have none: "create t i kw = Inl TypeError"
    if "t \<in> {''AllC'', ''AllD'', ''TFT'', ''Grim'', ''Fictitious''} \<and> kw \<noteq> []"
  proof -
    from that have "\<not> accepts [] kw" by (cases kw) (auto simp: accepts_def)
    with that show ?thesis by (auto simp: create_def AGENT_TYPES_def new_defs)
  qed
  have rnd_bad: "create ''Random'' i kw = Inl TypeError"
    if "\<not> set (map fst kw) \<subseteq> {''coop_probability''}"
    using that by (simp add: create_def AGENT_TYPES_def new_RandomAgent_def accepts_subset)
  have pav_bad: "create ''Pavlov'' i kw = Inl TypeError"
    if "\<not> set (map fst kw) \<subseteq> {''threshold''}"
    using that by (simp add: create_def AGENT_TYPES_def new_Pavlov_def accepts_subset)
  have ql_bad: "create ''Q-Learn'' i kw = Inl TypeError"
    if "\<not> set (map fst kw) \<subseteq> {''learning_rate'', ''discount_factor'', ''epsilon''}"
    using that by (simp add: create_def AGENT_TYPES_def new_QLearningAgent_def accepts_subset)
  have rnd1: "create ''Random'' i [(''coop_probability'', c)] = Inr (Rand (RandomAgent_init i c))"
    by (simp add: create_def AGENT_TYPES_def new_RandomAgent_def accepts_def keyword_def)
  have pav1: "create ''Pavlov'' i [(''threshold'', th)] = Inr (Pav (Pavlov_init i th))"
    by (simp add: create_def AGENT_TYPES_def new_Pavlov_def accepts_def keyword_def)
  have ql1: "create ''Q-Learn'' i [(''learning_rate'', al), (''discount_factor'', ga), (''epsilon'', ep)]
        = Inr (QLearn (QLearningAgent_init i al ga ep))"
    by (simp add: create_def AGENT_TYPES_def new_QLearningAgent_def accepts_def keyword_def)
  have pop: "length pop = nat m \<and> (\<forall>j < nat m. create t (int j) kw = Inr (pop ! j))"
    if "create_population t m kw = Inr pop"
    using create_each_Inr [OF that [unfolded create_population_def]] by simp
  show ?thesis
    apply (intro conjI)
    subgoal using mixed by (rule impI)
    subgoal by (rule fwd)
    subgoal using rnd by (rule impI)
    subgoal using pav by (rule impI)
    subgoal using ql by (rule impI)
    subgoal using none by (rule impI)
    subgoal using rnd_bad by (rule impI)
    subgoal using pav_bad by (rule impI)
    subgoal using ql_bad by (rule impI)
    subgoal by (rule rnd1)
    subgoal by (rule pav1)
    subgoal by (rule ql1)
    subgoal using pop by (rule impI)
    done
qed

text \<open>A mixed population of one random agent and one Q-learner, against \<open>create\<close> with
  one keyword for the random agent, for Pavlov and for the Q-learner, a keyword that
  Tit-for-Tat does not declare, and \<open>create_population\<close> with a cooperation probability
  of 0.25.\<close>

theorem mixed_population_takes_defaults_witness:
  "create_mixed_population [(''Random'', 1), (''Q-Learn'', 1)] 0
     = Inr [Rand (RandomAgent_init 0 0.5), QLearn (QLearningAgent_init 1 0.1 0.95 0.1)]
   \<and> create ''Random'' 0 [(''coop_probability'', 0.25)] = Inr (Rand (RandomAgent_init 0 0.25))
   \<and> create ''Pavlov'' 4 [(''threshold'', 3)] = Inr (Pav (Pavlov_init 4 3))
   \<and> create ''Q-Learn'' 6 [(''epsilon'', 0.5)] = Inr (QLearn (QLearningAgent_init 6 0.1 0.95 0.5))
   \<and> create ''TFT'' 3 [(''threshold'', 3)] = Inl TypeError
   \<and> create_population ''Random'' 2 [(''coop_probability'', 0.25)]
       = Inr [Rand (RandomAgent_init 0 0.25), Rand (RandomAgent_init 1 0.25)]"
proof -
  let ?pop = "[Rand (RandomAgent_init 0 0.5), QLearn (QLearningAgent_init 1 0.1 0.95 0.1)]"
  have mixed: "create_mixed_population [(''Random'', 1), (''Q-Learn'', 1)] 0 = Inr ?pop"
    by (simp add: create_mixed_population_def create_def AGENT_TYPES_def new_RandomAgent_def
          new_QLearningAgent_def accepts_def keyword_def)
  have pop: "create_population ''Random'' 2 [(''coop_probability'', 0.25)]
       = Inr [Rand (RandomAgent_init 0 0.25), Rand (RandomAgent_init 1 0.25)]"
    by (simp add: create_population_def create_def AGENT_TYPES_def new_RandomAgent_def
          accepts_def keyword_def upt_rec numeral_2_eq_2)
  have 1: "create ''Random'' 0 [(''coop_probability'', 0.25)] = Inr (Rand (RandomAgent_init 0 0.25))"
    using mixed_population_takes_defaults
            [of "[]" 0 "[]" "''Random''" 0 "[(''coop_probability'', 0.25)]" "0.25" 0 0 0 0 0 "[]"]
    by simp
  have 2: "create ''Pavlov'' 4 [(''threshold'', 3)] = Inr (Pav (Pavlov_init 4 3))"
    using mixed_population_takes_defaults
            [of "[]" 0 "[]" "''Pavlov''" 4 "[(''threshold'', 3)]" 0 0 0 0 0 0 "[]"]
    by simp
  have 3: "create ''Q-Learn'' 6 [(''epsilon'', 0.5)] = Inr (QLearn (QLearningAgent_init 6 0.1 0.95 0.5))"
    using mixed_population_takes_defaults
            [of "[]" 0 "[]" "''Q-Learn''" 6 "[(''epsilon'', 0.5)]" 0 0 0 0 0 0 "[]"]
    by simp
  have 4: "create ''TFT'' 3 [(''threshold'', 3)] = Inl TypeError"
    using mixed_population_takes_defaults
            [of "[]" 0 "[]" "''TFT''" 3 "[(''threshold'', 3)]" 0 0 0 0 0 0 "[]"]
    by simp
  from mixed 1 2 3 4 pop show ?thesis by simp
qed

section \<open>The tabular learner\<close>

lemma py_max_Max:
  assumes "vs \<noteq> []"
  shows "py_max vs = Max (set vs)"
proof -
  from assms obtain v ws where vs: "vs = v # ws" by (cases vs) auto
  have "Max (set (v # ws)) = fold max ws v" by (rule Max.set_eq_fold)
  with vs show ?thesis by (simp add: py_max_def)
qed

lemma table_row_row_of:
  "fst (table_row t s) = row_of t s"
  "row_of (snd (table_row t s)) s2 = row_of t s2"
  by (auto simp: table_row_def row_of_def split: option.splits if_splits)

lemma row_of_update: "row_of (AList.update s row t) s2 = (if s2 = s then row else row_of t s2)"
  by (simp add: row_of_def update_conv')

lemma q_read_value:
  "fst (q_read t s a) = (case stored t s a of None \<Rightarrow> 0 | Some v \<Rightarrow> v)"
  by (simp add: q_read_def split_beta Let_def row_value_def stored_def
       table_row_row_of split: option.splits)

lemma q_read_row_of:
  "row_of (snd (q_read t s a)) s2 =
     (if s2 = s then (if stored t s a = None then row_of t s @ [(a, 0)] else row_of t s)
      else row_of t s2)"
  using table_row_row_of [of t s]
  by (auto simp: q_read_def split_beta Let_def row_value_def stored_def row_of_update
       split: option.splits)

lemma q_write_row_of:
  "row_of (q_write t s a v) s2 =
     (if s2 = s then AList.update a v (row_of t s) else row_of t s2)"
  using table_row_row_of [of t s]
  by (auto simp: q_write_def split_beta Let_def row_of_update)

lemma max_next_after_read:
  "(if row_of (snd (q_read t s a)) s' \<noteq> [] then py_max (map snd (row_of (snd (q_read t s a)) s')) else 0)
     = (if s' = s \<and> stored t s a = None then max 0 (max_stored t s') else max_stored t s')"
proof (cases "s' = s \<and> stored t s a = None")
  case True
  then have row: "row_of (snd (q_read t s a)) s' = row_of t s @ [(a, 0)]"
    by (simp add: q_read_row_of)
  have "py_max (map snd (row_of t s @ [(a, 0)])) = Max (set (map snd (row_of t s @ [(a, 0)])))"
    by (rule py_max_Max) simp
  also have "\<dots> = max 0 (max_stored t s)"
    by (cases "row_of t s = []") (simp_all add: max_stored_def max.commute)
  finally show ?thesis using True row by simp
next
  case False
  then have row: "row_of (snd (q_read t s a)) s' = row_of t s'"
    by (auto simp: q_read_row_of)
  show ?thesis
  proof (cases "row_of t s' = []")
    case True
    with row False show ?thesis by (auto simp: max_stored_def)
  next
    case ne: False
    then have "py_max (map snd (row_of t s')) = Max (set (map snd (row_of t s')))"
      by (intro py_max_Max) simp
    with row False ne show ?thesis by (auto simp: max_stored_def)
  qed
qed

lemma QLearningAgent_update_q_table:
  "q_table (QLearningAgent_update self a s' rw) =
     (let s = get_state self;
          t1 = snd (q_read (q_table self) s a);
          old_q = fst (q_read (q_table self) s a);
          row = row_of t1 s';
          max_next_q = (if row \<noteq> [] then py_max (map snd row) else 0)
      in q_write (snd (table_row t1 s')) s a
           (old_q + alpha self * (rw + gamma self * max_next_q - old_q)))"
  by (simp add: QLearningAgent_update_def Let_def split_beta BaseAgent_update_def
        get_state_def get_last_opponent_action_def table_row_row_of)

text \<open>
  Claim C2, as the code has it. Let \<open>s\<close> be the learner's state before the call (the last
  recorded opponent action, or \<open>'init'\<close> when there is none or it is the empty string).
  After \<open>update(a, s', rw)\<close> the value stored at \<open>(s, a)\<close> is
  \<open>old + alpha * (rw + gamma * maxNext - old)\<close>, where \<open>old\<close> is the value stored there
  before (zero when none), and \<open>maxNext\<close> is the maximum of the values stored under \<open>s'\<close>
  (zero when none) --- except that when \<open>s' = s\<close> and no value was stored at \<open>(s, a)\<close>,
  the zero that reading \<open>(s, a)\<close> stores takes part in the maximum. Every other stored
  value is unchanged.
\<close>

theorem QLearningAgent_update_rule:
  "let s = get_state self;
       t = q_table self;
       t' = q_table (QLearningAgent_update self a s' rw);
       old = (case stored t s a of None \<Rightarrow> 0 | Some v \<Rightarrow> v);
       maxNext = (if s' = s \<and> stored t s a = None then max 0 (max_stored t s')
                  else max_stored t s')
   in stored t' s a = Some (old + alpha self * (rw + gamma self * maxNext - old))
      \<and> (\<forall>s2 a2. (s2, a2) \<noteq> (s, a) \<longrightarrow> stored t' s2 a2 = stored t s2 a2)"
proof -
  define s where "s = get_state self"
  define t where "t = q_table self"
  define t1 where "t1 = snd (q_read t s a)"
  define old where "old = (case stored t s a of None \<Rightarrow> 0 | Some v \<Rightarrow> v)"
  define maxNext where "maxNext = (if s' = s \<and> stored t s a = None then max 0 (max_stored t s')
                  else max_stored t s')"
  define new where "new = old + alpha self * (rw + gamma self * maxNext - old)"
  have t': "q_table (QLearningAgent_update self a s' rw) = q_write (snd (table_row t1 s')) s a new"
    unfolding QLearningAgent_update_q_table Let_def new_def old_def maxNext_def t1_def
    by (simp add: s_def t_def q_read_value max_next_after_read)
  have rows: "row_of (q_write (snd (table_row t1 s')) s a new) s2 =
          (if s2 = s then AList.update a new (row_of t1 s) else row_of t s2)" for s2
    by (simp add: q_write_row_of table_row_row_of t1_def q_read_row_of)
  have 1: "stored (q_write (snd (table_row t1 s')) s a new) s a = Some new"
    by (simp add: stored_def rows update_conv')
  have 2: "stored (q_write (snd (table_row t1 s')) s a new) s2 a2 = stored t s2 a2"
    if "(s2, a2) \<noteq> (s, a)" for s2 a2
  proof (cases "s2 = s")
    case True
    with that have "a2 \<noteq> a" by simp
    have "map_of (row_of t1 s) a2 = map_of (row_of t s) a2"
      using \<open>a2 \<noteq> a\<close> by (auto simp: t1_def q_read_row_of map_add_def split: option.splits)
    with \<open>a2 \<noteq> a\<close> True show ?thesis
      by (simp add: stored_def rows update_conv')
  next
    case False
    then show ?thesis by (simp add: stored_def rows)
  qed
  from 1 2 have goal:
    "stored (q_table (QLearningAgent_update self a s' rw)) s a = Some new
     \<and> (\<forall>s2 a2. (s2, a2) \<noteq> (s, a) \<longrightarrow>
           stored (q_table (QLearningAgent_update self a s' rw)) s2 a2 = stored t s2 a2)"
    unfolding t' by blast
  show ?thesis
    unfolding Let_def
    using goal [unfolded new_def old_def maxNext_def t_def s_def] .
qed

lemmas q_eval = QLearningAgent_update_def QLearningAgent_init_def BaseAgent_update_def
  BaseAgent_init_def base_agent.extend_def qlearning_agent.fields_def deque_append_def
  get_state_def get_last_opponent_action_def q_read_def q_write_def table_row_def
  row_value_def py_max_def Let_def

lemma after_two_rounds:
  "q_table (QLearningAgent_update
              (QLearningAgent_update (QLearningAgent_init 6 (1/2) (1/2) (1/10)) ''C'' ''D'' (-1))
              ''C'' ''D'' (-1))
     = [(''init'', [(''C'', -1/2)]), (''D'', [(''C'', -1/2)])]"
  "get_state (QLearningAgent_update
              (QLearningAgent_update (QLearningAgent_init 6 (1/2) (1/2) (1/10)) ''C'' ''D'' (-1))
              ''C'' ''D'' (-1)) = ''D''"
  by (simp_all add: q_eval)

lemma after_three_rounds:
  "q_table (QLearningAgent_update (QLearningAgent_update
              (QLearningAgent_update (QLearningAgent_init 6 (1/2) (1/2) (1/10)) ''C'' ''D'' (-1))
              ''C'' ''D'' (-1)) ''D'' ''D'' 0)
     = [(''init'', [(''C'', -1/2)]), (''D'', [(''C'', -1/2), (''D'', 0)])]"
  by (simp add: q_eval)


lemma after_two_rounds_parameters:
  "alpha (QLearningAgent_update
              (QLearningAgent_update (QLearningAgent_init 6 (1/2) (1/2) (1/10)) ''C'' ''D'' (-1))
              ''C'' ''D'' (-1)) = 1/2"
  "gamma (QLearningAgent_update
              (QLearningAgent_update (QLearningAgent_init 6 (1/2) (1/2) (1/10)) ''C'' ''D'' (-1))
              ''C'' ''D'' (-1)) = 1/2"
  by (simp_all add: q_eval split_beta)

text \<open>
  A learner with \<open>alpha = gamma = 1/2\<close> after two rounds in which it played \<open>C\<close>, the
  opponent played \<open>D\<close> and the payoff was \<open>-1\<close>: its state is \<open>D\<close>, under which only
  \<open>C\<close> has a value, \<open>-1/2\<close>. A third round in which it plays \<open>D\<close> against \<open>D\<close> for
  payoff 0 stores 0 at \<open>(D, D)\<close>, not \<open>0 + 1/2 * (0 + 1/2 * (-1/2) - 0)\<close>.
\<close>

theorem QLearningAgent_update_own_state:
  "get_state (QLearningAgent_update
              (QLearningAgent_update (QLearningAgent_init 6 (1/2) (1/2) (1/10)) ''C'' ''D'' (-1))
              ''C'' ''D'' (-1)) = ''D''
   \<and> stored (q_table (QLearningAgent_update
              (QLearningAgent_update (QLearningAgent_init 6 (1/2) (1/2) (1/10)) ''C'' ''D'' (-1))
              ''C'' ''D'' (-1))) ''D'' ''D'' = None
   \<and> max_stored (q_table (QLearningAgent_update
              (QLearningAgent_update (QLearningAgent_init 6 (1/2) (1/2) (1/10)) ''C'' ''D'' (-1))
              ''C'' ''D'' (-1))) ''D'' = - 1/2
   \<and> stored (q_table (QLearningAgent_update (QLearningAgent_update
              (QLearningAgent_update (QLearningAgent_init 6 (1/2) (1/2) (1/10)) ''C'' ''D'' (-1))
              ''C'' ''D'' (-1)) ''D'' ''D'' 0)) ''D'' ''D'' = Some 0
   \<and> stored (q_table (QLearningAgent_update (QLearningAgent_update
              (QLearningAgent_update (QLearningAgent_init 6 (1/2) (1/2) (1/10)) ''C'' ''D'' (-1))
              ''C'' ''D'' (-1)) ''D'' ''D'' 0)) ''D'' ''D''
       \<noteq> Some (0 + 1/2 * (0 + 1/2 * (- 1/2) - 0))"
  by (simp add: after_two_rounds after_three_rounds stored_def row_of_def max_stored_def)

text \<open>The first and the third of these rounds, by the rule.\<close>

theorem QLearningAgent_update_rule_witness:
  "stored (q_table (QLearningAgent_update (QLearningAgent_init 6 (1/2) (1/2) (1/10))
                      ''C'' ''D'' (-1))) ''init'' ''C'' = Some (- 1/2)
   \<and> stored (q_table (QLearningAgent_update (QLearningAgent_update
              (QLearningAgent_update (QLearningAgent_init 6 (1/2) (1/2) (1/10)) ''C'' ''D'' (-1))
              ''C'' ''D'' (-1)) ''D'' ''D'' 0)) ''D'' ''D'' = Some 0
   \<and> stored (q_table (QLearningAgent_update (QLearningAgent_update
              (QLearningAgent_update (QLearningAgent_init 6 (1/2) (1/2) (1/10)) ''C'' ''D'' (-1))
              ''C'' ''D'' (-1)) ''D'' ''D'' 0)) ''init'' ''C'' = Some (- 1/2)"
proof -
  have init: "get_state (QLearningAgent_init 6 (1/2) (1/2) (1/10)) = ''init''"
    "q_table (QLearningAgent_init 6 (1/2) (1/2) (1/10)) = []"
    "alpha (QLearningAgent_init 6 (1/2) (1/2) (1/10)) = 1/2"
    "gamma (QLearningAgent_init 6 (1/2) (1/2) (1/10)) = 1/2"
    by (simp_all add: QLearningAgent_init_def BaseAgent_init_def base_agent.extend_def
          qlearning_agent.fields_def get_state_def get_last_opponent_action_def)
  have 1: "stored (q_table (QLearningAgent_update (QLearningAgent_init 6 (1/2) (1/2) (1/10))
                      ''C'' ''D'' (-1))) ''init'' ''C'' = Some (- 1/2)"
    using QLearningAgent_update_rule
            [of "QLearningAgent_init 6 (1/2) (1/2) (1/10)" "''C''" "''D''" "-1"]
    by (simp add: Let_def init stored_def row_of_def max_stored_def)
  have 2: "stored (q_table (QLearningAgent_update (QLearningAgent_update
              (QLearningAgent_update (QLearningAgent_init 6 (1/2) (1/2) (1/10)) ''C'' ''D'' (-1))
              ''C'' ''D'' (-1)) ''D'' ''D'' 0)) ''D'' ''D'' = Some 0
   \<and> stored (q_table (QLearningAgent_update (QLearningAgent_update
              (QLearningAgent_update (QLearningAgent_init 6 (1/2) (1/2) (1/10)) ''C'' ''D'' (-1))
              ''C'' ''D'' (-1)) ''D'' ''D'' 0)) ''init'' ''C'' = Some (- 1/2)"
    using QLearningAgent_update_rule
            [of "QLearningAgent_update
              (QLearningAgent_update (QLearningAgent_init 6 (1/2) (1/2) (1/10)) ''C'' ''D'' (-1))
              ''C'' ''D'' (-1)" "''D''" "''D''" 0]
    by (simp add: Let_def after_two_rounds after_two_rounds_parameters stored_def row_of_def
          max_stored_def)
  from 1 2 show ?thesis by simp
qed

section \<open>Actions and alphabets\<close>

lemma choice_in_set: "xs \<noteq> [] \<Longrightarrow> choice k xs \<in> set xs"
  by (simp add: choice_def)

lemma read_values_keys: "map fst (fst (read_values t s as)) = as"
  by (induction "as" arbitrary: t) (simp_all add: split_beta)

lemma py_max_in: "vs \<noteq> [] \<Longrightarrow> py_max vs \<in> set vs"
  using py_max_Max [of vs] Max_in [of "set vs"] by simp

lemma QLearningAgent_choose_action_in_actions:
  "fst (QLearningAgent_choose_action self gt u k)
     \<in> set (if gt = ''PD'' then [''C'', ''D''] else [''A'', ''B''])"
proof -
  define actions where "actions = (if gt = ''PD'' then [''C'', ''D''] else [''A'', ''B''])"
  define qv where "qv = fst (read_values (q_table self) (get_state self) actions)"
  define best where "best = map fst (filter (\<lambda>(a, q). q = py_max (map snd qv)) qv)"
  have ne: "actions \<noteq> []" by (simp add: actions_def)
  have keys: "map fst qv = actions" by (simp add: qv_def read_values_keys)
  with ne have qne: "qv \<noteq> []" by auto
  then have "py_max (map snd qv) \<in> set (map snd qv)" by (intro py_max_in) simp
  then obtain a where "(a, py_max (map snd qv)) \<in> set qv" by auto
  then have "a \<in> set best" by (force simp: best_def)
  then have bne: "best \<noteq> []" by auto
  have "set best \<subseteq> set (map fst qv)" by (auto simp: best_def)
  with keys choice_in_set [OF bne, of k] have 1: "choice k best \<in> set actions" by auto
  have 2: "choice k actions \<in> set actions" using ne by (rule choice_in_set)
  have "fst (QLearningAgent_choose_action self gt u k)
          = (if u < epsilon self then choice k actions else choice k best)"
    by (simp add: QLearningAgent_choose_action_def Let_def split_beta actions_def best_def qv_def)
  with 1 2 show ?thesis by (simp add: actions_def)
qed

lemma FictitiousPlay_choose_action_in_actions:
  "fst (FictitiousPlay_choose_action self gt)
     \<in> set (if gt = ''PD'' then [''C'', ''D''] else [''A'', ''B''])"
  by (simp add: FictitiousPlay_choose_action_def Let_def split_beta)

lemma created_keeps_within:
  assumes "create t i kw = Inr a0"
  shows "keeps_within G a0"
proof -
  have "t \<in> set (map fst AGENT_TYPES)"
    using assms create_unknown [of t i kw] by auto
  then show ?thesis using assms unfolding registry_keys
    by (auto simp: create_def AGENT_TYPES_def new_defs init_defs split: if_splits)
qed

lemma set_deque_append: "set (deque_append m xs x) \<subseteq> insert x (set xs)"
proof -
  have "set (tl (xs @ [x])) \<subseteq> set (xs @ [x])" by (rule list.set_sel(2) [THEN subsetI]) simp
  then show ?thesis by (auto simp: deque_append_def Let_def)
qed

lemma last_deque_append: "deque_append m xs x \<noteq> [] \<Longrightarrow> last (deque_append m xs x) = x"
  by (cases xs) (auto simp: deque_append_def Let_def split: if_splits)

lemma apply_call_keeps_within:
  assumes "keeps_within G ag" "reports_within G c"
  shows "keeps_within G (apply_call ag c)"
proof (cases c)
  case (ChooseAction gt u k)
  show ?thesis
  proof (cases ag)
    case (Pav a)
    with assms ChooseAction show ?thesis
      by (auto simp: Pavlov_choose_action_def Let_def split_beta)
  qed (use assms ChooseAction in \<open>simp_all add: split_beta\<close>)
next
  case (Update m opp p)
  show ?thesis
  proof (cases ag)
    case (TFT a)
    have "set (memory (BaseAgent_update a m opp p))
            \<subseteq> insert \<lparr>my_action = m, opponent_action = opp, payoff = p, round = round_count a\<rparr>
                 (set (memory a))"
      using set_deque_append by (simp add: BaseAgent_update_def)
    with assms TFT Update show ?thesis by (auto simp: list_all_iff)
  next
    case (Pav a)
    have "memory (Pavlov_update a m opp p) = [] \<or> last_action (Pavlov_update a m opp p) = Some m"
      by (simp add: Pavlov_update_def)
    with assms Pav Update show ?thesis by auto
  qed (use assms Update in simp_all)
next
  case Reset
  show ?thesis
    by (cases ag) (use assms Reset in \<open>simp_all add: BaseAgent_reset_def\<close>)
qed

lemma run_keeps_within:
  "keeps_within G ag \<Longrightarrow> list_all (reports_within G) cs \<Longrightarrow> keeps_within G (run ag cs)"
proof (induction cs arbitrary: ag)
  case Nil
  then show ?case by (simp add: run_def)
next
  case (Cons c cs)
  from Cons.prems have "keeps_within G (apply_call ag c)" "list_all (reports_within G) cs"
    by (simp_all add: apply_call_keeps_within)
  from Cons.IH [OF this] show ?case by (simp add: run_def)
qed

lemma choose_action_keeps_within:
  assumes "keeps_within G ag" "G = PD g \<or> G = COORD g"
  shows "fst (choose_action ag (game_type_of G) u k) \<in> set (get_actions G)"
proof -
  have alph: "get_actions G = map Str (if game_type_of G = ''PD'' then [''C'', ''D''] else [''A'', ''B''])"
    using assms(2) by (auto simp: PrisonersDilemma_get_actions_def CoordinationGame_get_actions_def)
  show ?thesis
  proof (cases ag)
    case (AllC a)
    with assms(2) show ?thesis
      by (auto simp: AlwaysCooperate_choose_action_def PrisonersDilemma_get_actions_def
            CoordinationGame_get_actions_def)
  next
    case (AllD a)
    with assms(2) show ?thesis
      by (auto simp: AlwaysDefect_choose_action_def PrisonersDilemma_get_actions_def
            CoordinationGame_get_actions_def)
  next
    case (Rand a)
    with assms(2) show ?thesis
      by (auto simp: RandomAgent_choose_action_def PrisonersDilemma_get_actions_def
            CoordinationGame_get_actions_def)
  next
    case (TFT a)
    show ?thesis
    proof (cases "memory a")
      case Nil
      with TFT assms(2) show ?thesis
        by (auto simp: TitForTat_choose_action_def get_last_opponent_action_def
              PrisonersDilemma_get_actions_def CoordinationGame_get_actions_def)
    next
      case (Cons x xs)
      then have "last (memory a) \<in> set (memory a)" by simp
      with assms(1) TFT have "Str (opponent_action (last (memory a))) \<in> set (get_actions G)"
        by (simp add: list_all_iff)
      with TFT Cons show ?thesis
        by (simp add: TitForTat_choose_action_def get_last_opponent_action_def)
    qed
  next
    case (Pav a)
    with assms show ?thesis
      by (auto simp: Pavlov_choose_action_def Let_def PrisonersDilemma_get_actions_def
            CoordinationGame_get_actions_def split: option.splits)
  next
    case (Grim a)
    with assms(2) show ?thesis
      by (auto simp: GrimTrigger_choose_action_def PrisonersDilemma_get_actions_def
            CoordinationGame_get_actions_def)
  next
    case (QLearn a)
    with QLearningAgent_choose_action_in_actions [of a "game_type_of G" u k]
    show ?thesis unfolding alph by (simp add: split_beta)
  next
    case (Fict a)
    with FictitiousPlay_choose_action_in_actions [of a "game_type_of G"]
    show ?thesis unfolding alph by (simp add: split_beta)
  qed
qed

text \<open>
  Claim C1, as the code has it. Take an agent that the factory has created, a Prisoner's
  Dilemma or a coordination game, and any sequence of calls on the agent whose \<open>update\<close>
  calls report only actions of that game's alphabet. Then the value \<open>choose_action\<close>
  returns for the game's token is a member of the alphabet that the game's
  \<open>get_actions\<close> reports, whatever the random source draws.
\<close>

theorem choose_action_within_alphabet:
  assumes "create t i kw = Inr a0"
    and "G = PD g \<or> G = COORD g"
    and "list_all (reports_within G) cs"
  shows "fst (choose_action (run a0 cs) (game_type_of G) u k) \<in> set (get_actions G)"
  using assms created_keeps_within run_keeps_within choose_action_keeps_within by blast


text \<open>
  In the public-goods mode the always-cooperating agent returns the symbol \<open>C\<close>, while
  the game's \<open>get_actions\<close> reports the contributions 0 and 10. And a Tit-for-Tat agent
  that has met a defection in a Prisoner's Dilemma returns \<open>D\<close> when it is asked for an
  action of the coordination game.
\<close>

theorem choose_action_outside_alphabet:
  "create ''AllC'' 0 [] = Inr (AllC (AlwaysCooperate_init 0))
   \<and> fst (choose_action (AllC (AlwaysCooperate_init 0))
            (game_type_of (PG (PublicGoodsGame_init 4 2 10))) 0 0) = Str ''C''
   \<and> get_actions (PG (PublicGoodsGame_init 4 2 10)) = [Num 0, Num 10]
   \<and> fst (choose_action (AllC (AlwaysCooperate_init 0))
            (game_type_of (PG (PublicGoodsGame_init 4 2 10))) 0 0)
        \<notin> set (get_actions (PG (PublicGoodsGame_init 4 2 10)))
   \<and> create ''TFT'' 3 [] = Inr (TFT (TitForTat_init 3))
   \<and> fst (choose_action (update (TFT (TitForTat_init 3)) ''C'' ''D'' 0)
            (game_type_of (COORD (CoordinationGame_init 4 2 0))) 0 0) = Str ''D''
   \<and> fst (choose_action (update (TFT (TitForTat_init 3)) ''C'' ''D'' 0)
            (game_type_of (COORD (CoordinationGame_init 4 2 0))) 0 0)
        \<notin> set (get_actions (COORD (CoordinationGame_init 4 2 0)))"
  by (simp add: create_def AGENT_TYPES_def new_AlwaysCooperate_def new_TitForTat_def accepts_def
        AlwaysCooperate_choose_action_def PublicGoodsGame_get_actions_def
        PublicGoodsGame_init_def TitForTat_choose_action_def get_last_opponent_action_def
        TitForTat_init_def BaseAgent_init_def BaseAgent_update_def deque_append_def
        CoordinationGame_get_actions_def)

text \<open>Tit-for-Tat in the coordination game, and Pavlov through the rounds of the
  repository's test in the default Prisoner's Dilemma.\<close>

theorem choose_action_within_alphabet_witness:
  "fst (choose_action
          (run (TFT (TitForTat_init 3)) [ChooseAction ''COORD'' 0 0, Update ''A'' ''B'' 0])
          ''COORD'' 0 0)
     \<in> set (get_actions (COORD (CoordinationGame_init 4 2 0)))
   \<and> fst (choose_action
          (run (Pav (Pavlov_init 4 2))
               [ChooseAction ''PD'' 0 0, Update ''C'' ''C'' 3, ChooseAction ''PD'' 0 0,
                Update ''C'' ''D'' 0])
          ''PD'' 0 0)
     \<in> set (get_actions (PD \<lparr>PAYOFF_MATRIX =
              [((''C'', ''C''), (3, 3)), ((''C'', ''D''), (0, 5)),
               ((''D'', ''C''), (5, 0)), ((''D'', ''D''), (1, 1))]\<rparr>))"
proof -
  have tft: "create ''TFT'' 3 [] = Inr (TFT (TitForTat_init 3))"
    by (simp add: create_def AGENT_TYPES_def new_TitForTat_def accepts_def)
  have pav: "create ''Pavlov'' 4 [] = Inr (Pav (Pavlov_init 4 2))"
    by (simp add: create_def AGENT_TYPES_def new_Pavlov_def accepts_def keyword_def)
  have coord: "list_all (reports_within (COORD (CoordinationGame_init 4 2 0)))
                 [ChooseAction ''COORD'' 0 0, Update ''A'' ''B'' 0]"
    by (simp add: CoordinationGame_get_actions_def)
  have pd: "list_all (reports_within (PD \<lparr>PAYOFF_MATRIX =
              [((''C'', ''C''), (3, 3)), ((''C'', ''D''), (0, 5)),
               ((''D'', ''C''), (5, 0)), ((''D'', ''D''), (1, 1))]\<rparr>))
               [ChooseAction ''PD'' 0 0, Update ''C'' ''C'' 3, ChooseAction ''PD'' 0 0,
                Update ''C'' ''D'' 0]"
    by (simp add: PrisonersDilemma_get_actions_def)
  from choose_action_within_alphabet [OF tft _ coord, of "CoordinationGame_init 4 2 0" 0 0]
  have 1: "fst (choose_action
          (run (TFT (TitForTat_init 3)) [ChooseAction ''COORD'' 0 0, Update ''A'' ''B'' 0])
          ''COORD'' 0 0)
     \<in> set (get_actions (COORD (CoordinationGame_init 4 2 0)))"
    by simp
  from choose_action_within_alphabet [OF pav _ pd, of "\<lparr>PAYOFF_MATRIX =
              [((''C'', ''C''), (3, 3)), ((''C'', ''D''), (0, 5)),
               ((''D'', ''C''), (5, 0)), ((''D'', ''D''), (1, 1))]\<rparr>" 0 0]
  have 2: "fst (choose_action
          (run (Pav (Pavlov_init 4 2))
               [ChooseAction ''PD'' 0 0, Update ''C'' ''C'' 3, ChooseAction ''PD'' 0 0,
                Update ''C'' ''D'' 0])
          ''PD'' 0 0)
     \<in> set (get_actions (PD \<lparr>PAYOFF_MATRIX =
              [((''C'', ''C''), (3, 3)), ((''C'', ''D''), (0, 5)),
               ((''D'', ''C''), (5, 0)), ((''D'', ''D''), (1, 1))]\<rparr>))"
    by simp
  from 1 2 show ?thesis by (rule conjI)
qed

end
